theory Spec2Isabelle
  imports Complex_Main "HOL-Library.Word" "HOL-Library.Multiset"
begin

section \<open>Data model of client.go\<close>

text \<open>
  Go's \<open>int\<close> and \<open>int64\<close> are modelled as 64-bit words (a 64-bit platform), read as
  two's complement by \<open>sint\<close>; \<open>+\<close> wraps as Go's does. A Go string is a byte sequence
  and \<open>len\<close> counts its bytes.
\<close>

type_synonym go_int = "64 word"

definition len :: "string \<Rightarrow> go_int" where
  "len s = of_nat (length s)"

text \<open>
  A Go pointer or interface value is \<open>None\<close> when nil. A Go call either returns
  or panics (here: on a nil dereference).
\<close>

datatype 'a exec = Panic | Done 'a

text \<open>\<open>error\<close> values are opaque to client.go: it only tests them against nil.\<close>

datatype error = Error string

text \<open>
  \<open>prometheus.Labels\<close>, a \<open>map[string]string\<close>, written as the association list of
  the map literal.
\<close>

type_synonym Labels = "(string \<times> string) list"

subsection \<open>The metric set: outgoingInstrumentation (lines 195 to 203)\<close>

text \<open>
  The instruments are values of the prometheus library. Each carries the options it was
  built with (lines 29 to 101), the names of its variable labels, and what has been
  recorded in it: a counter the label sets it was incremented under, a histogram the
  labelled values it observed (oldest first), the gauge its value. The value of a
  \<open>float64\<close> is a real number; converting an integer to \<open>float64\<close> rounds it, see
  \<open>float64\<close> below.
\<close>

record Opts =
  Namespace :: string
  Subsystem :: string
  Name :: string
  Help :: string
  ConstLabels :: Labels

record HistogramOpts = Opts +
  Buckets :: "real list"

record CounterVec =
  counter_opts :: Opts
  counter_labels :: "string list"
  increments :: "Labels list"

record HistogramVec =
  histogram_opts :: HistogramOpts
  histogram_labels :: "string list"
  observations :: "(Labels \<times> real) list"

record Gauge =
  gauge_opts :: Opts
  gauge_value :: int

record outgoingInstrumentation =
  duration :: HistogramVec
  requests :: CounterVec
  dnsDuration :: HistogramVec
  tlsDuration :: HistogramVec
  inflight :: Gauge
  requestSize :: HistogramVec
  responseContentLength :: HistogramVec

text \<open>
  The closures of client.go capture the pointer \<open>i\<close> to the metric set and reach an
  instrument through one of its fields. A \<open>prometheus.ObserverVec\<close> handed to a layer
  is therefore the name of a histogram field of the metric set.
\<close>

datatype ObserverVec =
  Ref_duration | Ref_dnsDuration | Ref_tlsDuration | Ref_requestSize | Ref_responseContentLength

definition Observe :: "Labels \<times> real \<Rightarrow> HistogramVec \<Rightarrow> HistogramVec" where
  "Observe lv h = h\<lparr>observations := observations h @ [lv]\<rparr>"

text \<open>\<open>obs.With(labels).Observe(v)\<close> on the metric set \<open>i\<close>.\<close>

fun With_Observe :: "ObserverVec \<Rightarrow> Labels \<Rightarrow> real \<Rightarrow> outgoingInstrumentation \<Rightarrow> outgoingInstrumentation" where
  "With_Observe Ref_duration l v i = i\<lparr>duration := Observe (l, v) (duration i)\<rparr>"
| "With_Observe Ref_dnsDuration l v i = i\<lparr>dnsDuration := Observe (l, v) (dnsDuration i)\<rparr>"
| "With_Observe Ref_tlsDuration l v i = i\<lparr>tlsDuration := Observe (l, v) (tlsDuration i)\<rparr>"
| "With_Observe Ref_requestSize l v i = i\<lparr>requestSize := Observe (l, v) (requestSize i)\<rparr>"
| "With_Observe Ref_responseContentLength l v i =
     i\<lparr>responseContentLength := Observe (l, v) (responseContentLength i)\<rparr>"

subsection \<open>Requests, responses and the trace hooks\<close>

text \<open>
  A hook of \<open>pph.InstrumentTrace\<close> as lines 105 to 116 write it:
  \<open>func(t float64) { i.h.WithLabelValues(event).Observe(t) }\<close>, the closure given by the
  histogram \<open>h\<close> and the event name. The fields of \<open>InstrumentTrace\<close> that client.go
  leaves nil are left out.
\<close>

datatype hook = Hook ObserverVec string

record InstrumentTrace =
  DNSStart :: "hook option"
  DNSDone :: "hook option"
  TLSHandshakeStart :: "hook option"
  TLSHandshakeDone :: "hook option"

text \<open>
  The fields of \<open>http.Request\<close> that client.go reads. \<open>URL\<close> is \<open>None\<close> for a nil
  pointer and otherwise holds the text that \<open>r.URL.String()\<close> returns. \<open>Header\<close> is
  Go's \<open>map[string][]string\<close> as an association list. \<open>Context\<close> is the client trace
  carried by the request's context, if any.
\<close>

record request =
  URL :: "string option"
  Method :: string
  Proto :: string
  Header :: "(string \<times> string list) list"
  Host :: string
  ContentLength :: go_int
  Context :: "InstrumentTrace option"

text \<open>The fields of \<open>http.Response\<close> that client.go reads.\<close>

record response =
  StatusCode :: go_int
  resp_ContentLength :: go_int

text \<open>\<open>fmt.Sprint\<close> of an \<open>int\<close>: its decimal numeral.\<close>

fun decimal :: "nat \<Rightarrow> string" where
  "decimal n = (if n < 10 then [''0123456789'' ! n]
                else decimal (n div 10) @ [''0123456789'' ! (n mod 10)])"

declare decimal.simps [simp del]

definition Sprint :: "go_int \<Rightarrow> string" where
  "Sprint n = (if sint n < 0 then CHR ''-'' # decimal (nat (- sint n)) else decimal (nat (sint n)))"

text \<open>
  \<open>strings.ToLower\<close> on ASCII text, which is what an HTTP method is: the letters
  \<open>A\<close> to \<open>Z\<close> are mapped to \<open>a\<close> to \<open>z\<close>, every other byte is kept.
\<close>

definition toLower_byte :: "char \<Rightarrow> char" where
  "toLower_byte c =
     (case map_of (zip ''ABCDEFGHIJKLMNOPQRSTUVWXYZ'' ''abcdefghijklmnopqrstuvwxyz'') c of
        Some l \<Rightarrow> l | None \<Rightarrow> c)"

definition ToLower :: "string \<Rightarrow> string" where
  "ToLower s = map toLower_byte s"

text \<open>
  The conversion \<open>float64(n)\<close> of an \<open>int\<close> or \<open>int64\<close>. A \<open>float64\<close> has a
  significand of 53 bits: a magnitude of more bits is rounded to the nearest number with
  53 significant bits, a tie going to the one whose last bit is even.
  \<open>excess_bits m\<close> is the number of bits by which \<open>m\<close> is longer than 53 bits.
\<close>

function excess_bits :: "nat \<Rightarrow> nat" where
  "excess_bits m = (if m < 2 ^ 53 then 0 else Suc (excess_bits (m div 2)))"
  by pat_completeness auto
termination
  by (relation "measure (\<lambda>m. m)") auto

declare excess_bits.simps [simp del]

definition round_to_float64 :: "nat \<Rightarrow> nat" where
  "round_to_float64 m =
     (let e = excess_bits m; q = m div 2 ^ e; rest = m mod 2 ^ e
      in if 2 ^ e < 2 * rest \<or> (2 * rest = 2 ^ e \<and> odd q) then (q + 1) * 2 ^ e else q * 2 ^ e)"

definition float64 :: "go_int \<Rightarrow> real" where
  "float64 n = (if sint n < 0 then - real (round_to_float64 (nat (- sint n)))
                else real (round_to_float64 (nat (sint n))))"

subsection \<open>computeApproximateRequestSize (client.go, lines 156 to 178)\<close>

text \<open>The inner loop \<open>for _, value := range values { s += len(value) }\<close>.\<close>

fun values_loop :: "string list \<Rightarrow> go_int \<Rightarrow> go_int" where
  "values_loop [] s = s"
| "values_loop (v # values) s = values_loop values (s + len v)"

text \<open>The outer loop \<open>for name, values := range r.Header\<close>.\<close>

fun header_loop :: "(string \<times> string list) list \<Rightarrow> go_int \<Rightarrow> go_int" where
  "header_loop [] s = s"
| "header_loop ((name, values) # h) s = header_loop h (values_loop values (s + len name))"

definition computeApproximateRequestSize :: "request \<Rightarrow> go_int" where
  "computeApproximateRequestSize r =
     (let s = 0;
          s = (case URL r of None \<Rightarrow> s | Some u \<Rightarrow> s + len u);
          s = s + len (Method r);
          s = s + len (Proto r);
          s = header_loop (Header r) s;
          s = s + len (Host r);
          s = (if ContentLength r \<noteq> - 1 then s + ContentLength r else s)
      in s)"

subsection \<open>Round trippers\<close>

text \<open>
  What is shared and mutated while a request runs: the metric set behind the pointer
  \<open>i\<close>, and the wall clock that \<open>time.Now\<close> reads (in seconds).
\<close>

record world =
  metrics :: outgoingInstrumentation
  clock :: real

text \<open>
  A base transport, seen from the chain, is what one call of it does: the pair
  \<open>(resp, err)\<close> it returns (or a panic), the connection events it reports to a client
  trace in the request's context, each with the seconds passed to the hook, and the
  wall-clock time the call takes. The metric set is allocated inside
  \<open>instrumentClientWithConstLabels\<close>, so a base transport reaches it through the hooks only.
\<close>

datatype trace_event =
  DNSStart_event real | DNSDone_event real
| TLSHandshakeStart_event real | TLSHandshakeDone_event real

record transport_call =
  call_result :: "(response option \<times> error option) exec"
  call_events :: "trace_event list"
  call_seconds :: real

datatype GaugeRef = Ref_inflight

datatype CounterRef = Ref_requests

text \<open>
  A \<open>pph.RoundTripperFunc\<close> is a closure. Each function that builds one is a
  constructor holding the variables the closure captures; \<open>RoundTrip\<close> below runs the
  closure's body. \<open>Transport_of t\<close> is any round tripper the caller supplies,
  \<open>DefaultTransport\<close> is \<open>http.DefaultTransport\<close>.
\<close>

datatype RoundTripper =
  Transport_of "request \<Rightarrow> transport_call"
| DefaultTransport
| InstrumentRoundTripperInFlight GaugeRef RoundTripper
| InstrumentRoundTripperCounter CounterRef RoundTripper
| InstrumentRoundTripperTrace InstrumentTrace RoundTripper
| instrumentRoundTripperRequestSize ObserverVec RoundTripper
| instrumentRoundTripperResponseContentLength ObserverVec RoundTripper
| InstrumentRoundTripperDuration ObserverVec RoundTripper

text \<open>\<open>h.WithLabelValues(event).Observe(t)\<close> for a vector whose one variable label is \<open>event\<close>.\<close>

fun run_hook :: "hook option \<Rightarrow> real \<Rightarrow> outgoingInstrumentation \<Rightarrow> outgoingInstrumentation" where
  "run_hook None t i = i"
| "run_hook (Some (Hook h event)) t i = With_Observe h [(''event'', event)] t i"

fun fire :: "InstrumentTrace \<Rightarrow> trace_event \<Rightarrow> outgoingInstrumentation \<Rightarrow> outgoingInstrumentation" where
  "fire tr (DNSStart_event t) i = run_hook (DNSStart tr) t i"
| "fire tr (DNSDone_event t) i = run_hook (DNSDone tr) t i"
| "fire tr (TLSHandshakeStart_event t) i = run_hook (TLSHandshakeStart tr) t i"
| "fire tr (TLSHandshakeDone_event t) i = run_hook (TLSHandshakeDone tr) t i"

definition run_transport ::
  "transport_call \<Rightarrow> request \<Rightarrow> world \<Rightarrow> (response option \<times> error option) exec \<times> world" where
  "run_transport c r w =
     (let i = (case Context r of None \<Rightarrow> metrics w
               | Some tr \<Rightarrow> fold (fire tr) (call_events c) (metrics w))
      in (call_result c, w\<lparr>metrics := i, clock := clock w + call_seconds c\<rparr>))"

definition gauge_add :: "int \<Rightarrow> world \<Rightarrow> world" where
  "gauge_add d w =
     w\<lparr>metrics := (metrics w)\<lparr>inflight := (inflight (metrics w))
          \<lparr>gauge_value := gauge_value (inflight (metrics w)) + d\<rparr>\<rparr>\<rparr>"

definition counter_Inc :: "Labels \<Rightarrow> world \<Rightarrow> world" where
  "counter_Inc l w =
     w\<lparr>metrics := (metrics w)\<lparr>requests := (requests (metrics w))
          \<lparr>increments := increments (requests (metrics w)) @ [l]\<rparr>\<rparr>\<rparr>"

definition observe :: "ObserverVec \<Rightarrow> Labels \<Rightarrow> real \<Rightarrow> world \<Rightarrow> world" where
  "observe obs l v w = w\<lparr>metrics := With_Observe obs l v (metrics w)\<rparr>"

text \<open>
  \<open>RoundTrip dt rt r w\<close> runs the round tripper \<open>rt\<close> on the request \<open>r\<close> in the world
  \<open>w\<close>; \<open>dt\<close> is what \<open>http.DefaultTransport\<close> does.

  The equations for \<open>instrumentRoundTripperRequestSize\<close> (lines 141 to 154) and
  \<open>instrumentRoundTripperResponseContentLength\<close> (lines 180 to 193) are the closures of
  client.go: \<open>resp.StatusCode\<close> is read only when \<open>err == nil\<close>, and panics on a nil
  \<open>resp\<close>.

  Modelled from the spec: \<open>InstrumentRoundTripperInFlight\<close>,
  \<open>InstrumentRoundTripperCounter\<close>, \<open>InstrumentRoundTripperTrace\<close> and
  \<open>InstrumentRoundTripperDuration\<close> belong to the imported package \<open>pph\<close>, whose code
  is not part of client.go. Their equations follow the specification's description of
  the layers: the gauge is incremented before and decremented after the call whatever
  its outcome; the counter is incremented on success under the status code and the
  lower-cased method; the trace layer puts the hooks into the request's context; the
  duration layer observes the elapsed wall-clock time under the method only.
\<close>

fun RoundTrip ::
  "(request \<Rightarrow> transport_call) \<Rightarrow> RoundTripper \<Rightarrow> request \<Rightarrow> world
     \<Rightarrow> (response option \<times> error option) exec \<times> world" where
  "RoundTrip dt (Transport_of t) r w = run_transport (t r) r w"
| "RoundTrip dt DefaultTransport r w = run_transport (dt r) r w"
| "RoundTrip dt (InstrumentRoundTripperInFlight g next) r w =
     (case RoundTrip dt next r (gauge_add 1 w) of
        (res, w') \<Rightarrow> (res, gauge_add (- 1) w'))"
| "RoundTrip dt (InstrumentRoundTripperCounter c next) r w =
     (case RoundTrip dt next r w of
        (Panic, w') \<Rightarrow> (Panic, w')
      | (Done (resp, Some e), w') \<Rightarrow> (Done (resp, Some e), w')
      | (Done (None, None), w') \<Rightarrow> (Panic, w')
      | (Done (Some rp, None), w') \<Rightarrow>
          (Done (Some rp, None),
           counter_Inc [(''code'', Sprint (StatusCode rp)), (''method'', ToLower (Method r))] w'))"
| "RoundTrip dt (InstrumentRoundTripperTrace trace next) r w =
     RoundTrip dt next (r\<lparr>Context := Some trace\<rparr>) w"
| "RoundTrip dt (instrumentRoundTripperRequestSize obs next) r w =
     (case RoundTrip dt next r w of
        (Panic, w') \<Rightarrow> (Panic, w')
      | (Done (resp, Some err), w') \<Rightarrow> (Done (resp, Some err), w')
      | (Done (None, None), w') \<Rightarrow> (Panic, w')
      | (Done (Some rp, None), w') \<Rightarrow>
          (let labels = [(''code'', Sprint (StatusCode rp)), (''method'', ToLower (Method r))]
           in (Done (Some rp, None),
               observe obs labels (float64 (computeApproximateRequestSize r)) w')))"
| "RoundTrip dt (instrumentRoundTripperResponseContentLength obs next) r w =
     (case RoundTrip dt next r w of
        (Panic, w') \<Rightarrow> (Panic, w')
      | (Done (resp, Some err), w') \<Rightarrow> (Done (resp, Some err), w')
      | (Done (None, None), w') \<Rightarrow> (Panic, w')
      | (Done (Some rp, None), w') \<Rightarrow>
          (let labels = [(''code'', Sprint (StatusCode rp)), (''method'', ToLower (Method r))]
           in (Done (Some rp, None),
               observe obs labels (float64 (resp_ContentLength rp)) w')))"
| "RoundTrip dt (InstrumentRoundTripperDuration obs next) r w =
     (let start = clock w in
      case RoundTrip dt next r w of
        (Panic, w') \<Rightarrow> (Panic, w')
      | (Done res, w') \<Rightarrow>
          (Done res, observe obs [(''method'', ToLower (Method r))] (clock w' - start) w'))"

subsection \<open>Describe and Collect (lines 205 to 225)\<close>

text \<open>
  A channel argument is modelled by the list of the values sent on it, in the order of
  sending. What one instrument sends is the library's: a vector or gauge describes itself
  by one descriptor, and collects one sample per label set it has recorded.
\<close>

record Desc =
  fqName :: string
  desc_help :: string
  desc_constLabels :: Labels
  desc_variableLabels :: "string list"

datatype Metric =
  CounterMetric Desc Labels nat
| HistogramMetric Desc Labels "real list"
| GaugeMetric Desc int

definition BuildFQName :: "string \<Rightarrow> string \<Rightarrow> string \<Rightarrow> string" where
  "BuildFQName namespace subsystem name =
     (if name = [] then []
      else if namespace \<noteq> [] \<and> subsystem \<noteq> [] then namespace @ ''_'' @ subsystem @ ''_'' @ name
      else if namespace \<noteq> [] then namespace @ ''_'' @ name
      else if subsystem \<noteq> [] then subsystem @ ''_'' @ name
      else name)"

definition NewDesc :: "'a Opts_scheme \<Rightarrow> string list \<Rightarrow> Desc" where
  "NewDesc opts variableLabels =
     \<lparr>fqName = BuildFQName (Namespace opts) (Subsystem opts) (Name opts),
      desc_help = Help opts,
      desc_constLabels = ConstLabels opts,
      desc_variableLabels = variableLabels\<rparr>"

definition CounterVec_Describe :: "CounterVec \<Rightarrow> Desc list" where
  "CounterVec_Describe c = [NewDesc (counter_opts c) (counter_labels c)]"

definition HistogramVec_Describe :: "HistogramVec \<Rightarrow> Desc list" where
  "HistogramVec_Describe h = [NewDesc (histogram_opts h) (histogram_labels h)]"

definition Gauge_Describe :: "Gauge \<Rightarrow> Desc list" where
  "Gauge_Describe g = [NewDesc (gauge_opts g) []]"

definition CounterVec_Collect :: "CounterVec \<Rightarrow> Metric list" where
  "CounterVec_Collect c =
     map (\<lambda>l. CounterMetric (NewDesc (counter_opts c) (counter_labels c)) l
                 (count_list (increments c) l))
       (remdups (increments c))"

definition HistogramVec_Collect :: "HistogramVec \<Rightarrow> Metric list" where
  "HistogramVec_Collect h =
     map (\<lambda>l. HistogramMetric (NewDesc (histogram_opts h) (histogram_labels h)) l
                 (map snd (filter (\<lambda>lv. fst lv = l) (observations h))))
       (remdups (map fst (observations h)))"

definition Gauge_Collect :: "Gauge \<Rightarrow> Metric list" where
  "Gauge_Collect g = [GaugeMetric (NewDesc (gauge_opts g) []) (gauge_value g)]"

definition Describe :: "outgoingInstrumentation \<Rightarrow> Desc list" where
  "Describe i =
     HistogramVec_Describe (duration i)
     @ CounterVec_Describe (requests i)
     @ HistogramVec_Describe (dnsDuration i)
     @ HistogramVec_Describe (tlsDuration i)
     @ Gauge_Describe (inflight i)
     @ HistogramVec_Describe (requestSize i)
     @ HistogramVec_Describe (responseContentLength i)"

definition Collect :: "outgoingInstrumentation \<Rightarrow> Metric list" where
  "Collect i =
     HistogramVec_Collect (duration i)
     @ CounterVec_Collect (requests i)
     @ HistogramVec_Collect (dnsDuration i)
     @ HistogramVec_Collect (tlsDuration i)
     @ Gauge_Collect (inflight i)
     @ HistogramVec_Collect (requestSize i)
     @ HistogramVec_Collect (responseContentLength i)"

text \<open>
  The instruments of the metric set, each as the \<open>prometheus.Collector\<close> it is, in the
  order in which the struct declares its fields (lines 196 to 202).
\<close>

datatype Collector =
  Collector_CounterVec CounterVec
| Collector_HistogramVec HistogramVec
| Collector_Gauge Gauge

fun Collector_Describe :: "Collector \<Rightarrow> Desc list" where
  "Collector_Describe (Collector_CounterVec c) = CounterVec_Describe c"
| "Collector_Describe (Collector_HistogramVec h) = HistogramVec_Describe h"
| "Collector_Describe (Collector_Gauge g) = Gauge_Describe g"

fun Collector_Collect :: "Collector \<Rightarrow> Metric list" where
  "Collector_Collect (Collector_CounterVec c) = CounterVec_Collect c"
| "Collector_Collect (Collector_HistogramVec h) = HistogramVec_Collect h"
| "Collector_Collect (Collector_Gauge g) = Gauge_Collect g"

fun Collector_opts :: "Collector \<Rightarrow> Opts" where
  "Collector_opts (Collector_CounterVec c) = counter_opts c"
| "Collector_opts (Collector_HistogramVec h) = Opts.truncate (histogram_opts h)"
| "Collector_opts (Collector_Gauge g) = gauge_opts g"

fun is_counter :: "Collector \<Rightarrow> bool" where
  "is_counter (Collector_CounterVec c) = True"
| "is_counter _ = False"

fun is_histogram :: "Collector \<Rightarrow> bool" where
  "is_histogram (Collector_HistogramVec h) = True"
| "is_histogram _ = False"

fun is_gauge :: "Collector \<Rightarrow> bool" where
  "is_gauge (Collector_Gauge g) = True"
| "is_gauge _ = False"

definition instruments :: "outgoingInstrumentation \<Rightarrow> Collector list" where
  "instruments i =
     [Collector_HistogramVec (duration i),
      Collector_CounterVec (requests i),
      Collector_HistogramVec (dnsDuration i),
      Collector_HistogramVec (tlsDuration i),
      Collector_Gauge (inflight i),
      Collector_HistogramVec (requestSize i),
      Collector_HistogramVec (responseContentLength i)]"

subsection \<open>instrumentClientWithConstLabels and ForRecipient (lines 11 to 139)\<close>

text \<open>
  Modelled from the spec: the constant \<open>subsystemHTTPOutgoing\<close> is declared outside
  client.go; the specification gives the subsystem tag as \<open>http_outgoing\<close>.
\<close>

definition subsystemHTTPOutgoing :: string where
  "subsystemHTTPOutgoing = ''http_outgoing''"

text \<open>\<open>prometheus.DefBuckets\<close>, the library's default latency buckets.\<close>

definition DefBuckets :: "real list" where
  "DefBuckets = [0.005, 0.01, 0.025, 0.05, 0.1, 0.25, 0.5, 1, 2.5, 5, 10]"

text \<open>The struct literal of lines 28 to 102; a new instrument has recorded nothing.\<close>

definition new_outgoingInstrumentation :: "string \<Rightarrow> Labels \<Rightarrow> outgoingInstrumentation" where
  "new_outgoingInstrumentation namespace constLabels =
     \<lparr>duration =
        \<lparr>histogram_opts =
           \<lparr>Namespace = namespace, Subsystem = subsystemHTTPOutgoing,
            Name = ''request_duration_histogram_seconds'',
            Help = ''A histogram of outgoing request latencies.'',
            ConstLabels = constLabels, Buckets = DefBuckets\<rparr>,
         histogram_labels = [''method''], observations = []\<rparr>,
      requests =
        \<lparr>counter_opts =
           \<lparr>Namespace = namespace, Subsystem = subsystemHTTPOutgoing,
            Name = ''requests_total'',
            Help = ''A counter for outgoing requests from the wrapped client.'',
            ConstLabels = constLabels\<rparr>,
         counter_labels = [''code'', ''method''], increments = []\<rparr>,
      dnsDuration =
        \<lparr>histogram_opts =
           \<lparr>Namespace = namespace, Subsystem = subsystemHTTPOutgoing,
            Name = ''dns_duration_histogram_seconds'',
            Help = ''Trace dns latency histogram.'',
            ConstLabels = constLabels, Buckets = [0.005, 0.01, 0.025, 0.05]\<rparr>,
         histogram_labels = [''event''], observations = []\<rparr>,
      tlsDuration =
        \<lparr>histogram_opts =
           \<lparr>Namespace = namespace, Subsystem = subsystemHTTPOutgoing,
            Name = ''tls_duration_histogram_seconds'',
            Help = ''Trace tls latency histogram.'',
            ConstLabels = constLabels, Buckets = [0.05, 0.1, 0.25, 0.5]\<rparr>,
         histogram_labels = [''event''], observations = []\<rparr>,
      inflight =
        \<lparr>gauge_opts =
           \<lparr>Namespace = namespace, Subsystem = subsystemHTTPOutgoing,
            Name = ''in_flight_requests'',
            Help = ''A gauge of in-flight outgoing requests for the wrapped client.'',
            ConstLabels = constLabels\<rparr>,
         gauge_value = 0\<rparr>,
      requestSize =
        \<lparr>histogram_opts =
           \<lparr>Namespace = namespace, Subsystem = subsystemHTTPOutgoing,
            Name = ''request_size_histogram_bytes'',
            Help = ''Request size in bytes.'',
            ConstLabels = constLabels, Buckets = [100, 1000, 2000, 5000, 10000]\<rparr>,
         histogram_labels = [''code'', ''method''], observations = []\<rparr>,
      responseContentLength =
        \<lparr>histogram_opts =
           \<lparr>Namespace = namespace, Subsystem = subsystemHTTPOutgoing,
            Name = ''response_content_length_histogram'',
            Help = ''Response content length in bytes.'',
            ConstLabels = constLabels, Buckets = [100, 1000, 2000, 5000, 10000]\<rparr>,
         histogram_labels = [''code'', ''method''], observations = []\<rparr>\<rparr>"

text \<open>The trace of lines 104 to 117.\<close>

definition trace :: InstrumentTrace where
  "trace =
     \<lparr>DNSStart = Some (Hook Ref_dnsDuration ''dns_start''),
      DNSDone = Some (Hook Ref_dnsDuration ''dns_done''),
      TLSHandshakeStart = Some (Hook Ref_tlsDuration ''tls_handshake_start''),
      TLSHandshakeDone = Some (Hook Ref_tlsDuration ''tls_handshake_done'')\<rparr>"

text \<open>
  The chain of lines 127 to 137, the value of the \<open>Transport\<close> field of the client
  that is returned, around \<open>transport\<close>.
\<close>

definition decorator_chain :: "RoundTripper \<Rightarrow> RoundTripper" where
  "decorator_chain transport =
     InstrumentRoundTripperInFlight Ref_inflight
       (InstrumentRoundTripperCounter Ref_requests
         (InstrumentRoundTripperTrace trace
           (instrumentRoundTripperRequestSize Ref_requestSize
             (instrumentRoundTripperResponseContentLength Ref_responseContentLength
               (InstrumentRoundTripperDuration Ref_duration transport)))))"

text \<open>
  An \<open>http.Client\<close>. Its redirect policy and cookie jar are opaque to client.go, which
  only copies them. Clients live in a heap, a list indexed by address; a
  \<open>*http.Client\<close> is an address, or \<open>None\<close> for nil.
\<close>

record ('cr, 'jar) http_Client =
  CheckRedirect :: 'cr
  Jar :: 'jar
  Timeout :: go_int
  Transport :: "RoundTripper option"

definition deref :: "'a list \<Rightarrow> nat option \<Rightarrow> 'a option" where
  "deref heap p = (case p of None \<Rightarrow> None
                   | Some a \<Rightarrow> if a < length heap then Some (heap ! a) else None)"

text \<open>
  What a call of \<open>instrumentClientWithConstLabels\<close> leaves behind: the two values it
  returns, the heap with the client it allocated, the registerer after \<open>Register\<close>, and
  the metric set \<open>i\<close> that the closures of the chain and the registerer share.
\<close>

record ('cr, 'jar, 'reg) factory_return =
  ret_client :: "nat option"
  ret_err :: "error option"
  ret_heap :: "('cr, 'jar) http_Client list"
  ret_reg :: 'reg
  ret_i :: outgoingInstrumentation

text \<open>
  \<open>prometheus.Registerer\<close> is an interface: \<open>Register\<close> is its method, any function
  from the collector and the registerer's state to an error (or nil) and the new state.
  Reading \<open>c.Transport\<close> on line 119 panics when \<open>c\<close> is nil.
\<close>

definition instrumentClientWithConstLabels ::
  "(outgoingInstrumentation \<Rightarrow> 'reg \<Rightarrow> error option \<times> 'reg) \<Rightarrow> string \<Rightarrow> nat option \<Rightarrow> 'reg
     \<Rightarrow> Labels \<Rightarrow> ('cr, 'jar) http_Client list \<Rightarrow> ('cr, 'jar, 'reg) factory_return exec" where
  "instrumentClientWithConstLabels Register namespace c reg constLabels heap =
     (let i = new_outgoingInstrumentation namespace constLabels in
      case deref heap c of
        None \<Rightarrow> Panic
      | Some base \<Rightarrow>
          (let transport = (case Transport base of None \<Rightarrow> DefaultTransport | Some t \<Rightarrow> t);
               new = \<lparr>CheckRedirect = CheckRedirect base,
                      Jar = Jar base,
                      Timeout = Timeout base,
                      Transport = Some (decorator_chain transport)\<rparr>;
               (err, reg') = Register i reg
           in Done \<lparr>ret_client = Some (length heap), ret_err = err,
                     ret_heap = heap @ [new], ret_reg = reg', ret_i = i\<rparr>))"

text \<open>The struct \<open>Client\<close> of lines 13 to 17; its embedded \<open>*http.Client\<close> is an address.\<close>

record 'reg Client =
  Client_http :: "nat option"
  Registerer :: 'reg
  Client_Namespace :: string

definition ForRecipient ::
  "(outgoingInstrumentation \<Rightarrow> 'reg \<Rightarrow> error option \<times> 'reg) \<Rightarrow> 'reg Client \<Rightarrow> string
     \<Rightarrow> ('cr, 'jar) http_Client list \<Rightarrow> ('cr, 'jar, 'reg) factory_return exec" where
  "ForRecipient Register c recipient heap =
     instrumentClientWithConstLabels Register (Client_Namespace c) (Client_http c) (Registerer c)
       [(''recipient'', recipient)] heap"

text \<open>
  Modelled from the spec: a registry of the prometheus library, which is not part of
  client.go. It holds the identities (namespace, subsystem, name, constant labels) under
  which instruments are registered, and refuses a metric set with an identity it
  already holds.
\<close>

type_synonym registry = "(string \<times> string \<times> string \<times> Labels) list"

definition identity :: "Collector \<Rightarrow> string \<times> string \<times> string \<times> Labels" where
  "identity k = (let opts = Collector_opts k
                 in (Namespace opts, Subsystem opts, Name opts, ConstLabels opts))"

definition registry_Register :: "outgoingInstrumentation \<Rightarrow> registry \<Rightarrow> error option \<times> registry" where
  "registry_Register i reg =
     (let ids = map identity (instruments i) in
      if list_ex (\<lambda>d. d \<in> set reg) ids
      then (Some (Error ''duplicate metrics collector registration attempted''), reg)
      else (None, reg @ ids))"

text \<open>
  The layers of a round tripper from the outermost one inwards, down to the transport
  that none of the functions of the chain built.
\<close>

datatype layer =
  InFlight_layer | Counter_layer | Trace_layer | RequestSize_layer
| ResponseContentLength_layer | Duration_layer

fun layers :: "RoundTripper \<Rightarrow> layer list" where
  "layers (InstrumentRoundTripperInFlight g next) = InFlight_layer # layers next"
| "layers (InstrumentRoundTripperCounter c next) = Counter_layer # layers next"
| "layers (InstrumentRoundTripperTrace t next) = Trace_layer # layers next"
| "layers (instrumentRoundTripperRequestSize obs next) = RequestSize_layer # layers next"
| "layers (instrumentRoundTripperResponseContentLength obs next) =
     ResponseContentLength_layer # layers next"
| "layers (InstrumentRoundTripperDuration obs next) = Duration_layer # layers next"
| "layers (Transport_of t) = []"
| "layers DefaultTransport = []"

text \<open>\<open>unwrap n rt\<close> is the round tripper found under the \<open>n\<close> outermost layers of \<open>rt\<close>.\<close>

fun unwrap :: "nat \<Rightarrow> RoundTripper \<Rightarrow> RoundTripper" where
  "unwrap 0 rt = rt"
| "unwrap (Suc n) (InstrumentRoundTripperInFlight g next) = unwrap n next"
| "unwrap (Suc n) (InstrumentRoundTripperCounter c next) = unwrap n next"
| "unwrap (Suc n) (InstrumentRoundTripperTrace t next) = unwrap n next"
| "unwrap (Suc n) (instrumentRoundTripperRequestSize obs next) = unwrap n next"
| "unwrap (Suc n) (instrumentRoundTripperResponseContentLength obs next) = unwrap n next"
| "unwrap (Suc n) (InstrumentRoundTripperDuration obs next) = unwrap n next"
| "unwrap (Suc n) (Transport_of t) = Transport_of t"
| "unwrap (Suc n) DefaultTransport = DefaultTransport"

text \<open>
  Appending the bytes \<open>s\<close> to the \<open>j\<close>-th value of the \<open>i\<close>-th header of a request.
  A Go string holds bytes: an ASCII character is one byte, any other character is the
  two to four bytes of its UTF-8 encoding.
\<close>

definition append_to_value :: "nat \<Rightarrow> string \<Rightarrow> string list \<Rightarrow> string list" where
  "append_to_value j s values = values[j := values ! j @ s]"

definition append_to_header_value :: "nat \<Rightarrow> nat \<Rightarrow> string \<Rightarrow> request \<Rightarrow> request" where
  "append_to_header_value i j s r =
     r\<lparr>Header := (Header r)[i := (fst (Header r ! i), append_to_value j s (snd (Header r ! i)))]\<rparr>"

text \<open>
  The sum as the specification words it, over the mathematical integers: the serialized
  URL's length, the method, protocol and host lengths, every header name's length plus
  each of its values' lengths, and the declared content length unless it is the
  sentinel \<open>-1\<close>.
\<close>

definition spec_header_size :: "(string \<times> string list) list \<Rightarrow> int" where
  "spec_header_size h =
     (\<Sum>(name, values) \<leftarrow> h. int (length name) + (\<Sum>v \<leftarrow> values. int (length v)))"

definition spec_request_size :: "request \<Rightarrow> int" where
  "spec_request_size r =
     (case URL r of None \<Rightarrow> 0 | Some u \<Rightarrow> int (length u))
     + int (length (Method r)) + int (length (Proto r))
     + spec_header_size (Header r)
     + int (length (Host r))
     + (if sint (ContentLength r) = - 1 then 0 else sint (ContentLength r))"

subsection \<open>Concrete requests and responses\<close>

definition get_request :: request where
  "get_request =
     \<lparr>URL = Some ''http://a/b'', Method = ''GET'', Proto = ''HTTP/1.1'',
      Header = [(''Accept'', [''a'', ''bc''])], Host = ''a'', ContentLength = 5,
      Context = None\<rparr>"

definition empty_request :: request where
  "empty_request =
     \<lparr>URL = None, Method = [], Proto = [], Header = [], Host = [], ContentLength = 0,
      Context = None\<rparr>"

definition negative_length_request :: request where
  "negative_length_request = empty_request\<lparr>ContentLength := - 2\<rparr>"

definition ok_response :: response where
  "ok_response = \<lparr>StatusCode = 200, resp_ContentLength = 42\<rparr>"

definition unknown_length_response :: response where
  "unknown_length_response = \<lparr>StatusCode = 200, resp_ContentLength = - 1\<rparr>"

definition ok_transport :: "request \<Rightarrow> transport_call" where
  "ok_transport r =
     \<lparr>call_result = Done (Some ok_response, None),
      call_events = [DNSStart_event 0.001, DNSDone_event 0.002],
      call_seconds = 0.25\<rparr>"

definition unknown_length_transport :: "request \<Rightarrow> transport_call" where
  "unknown_length_transport r =
     \<lparr>call_result = Done (Some unknown_length_response, None),
      call_events = [], call_seconds = 0.25\<rparr>"

definition failing_transport :: "request \<Rightarrow> transport_call" where
  "failing_transport r =
     \<lparr>call_result = Done (None, Some (Error ''connection refused'')),
      call_events = [DNSStart_event 0.001], call_seconds = 0.5\<rparr>"

text \<open>A transport that breaks the contract of \<open>http.RoundTripper\<close>: no response, no error.\<close>

definition nil_transport :: "request \<Rightarrow> transport_call" where
  "nil_transport r =
     \<lparr>call_result = Done (None, None), call_events = [], call_seconds = 0\<rparr>"

text \<open>A request whose estimate is the largest \<open>int\<close>, \<open>2 ^ 63 - 1\<close>.\<close>

definition largest_request :: request where
  "largest_request =
     \<lparr>URL = None, Method = [], Proto = [], Header = [(''X'', [[]])], Host = [],
      ContentLength = 9223372036854775806, Context = None\<rparr>"

text \<open>A response whose declared length is \<open>2 ^ 53 + 1\<close>.\<close>

definition long_response :: response where
  "long_response = \<lparr>StatusCode = 200, resp_ContentLength = 9007199254740993\<rparr>"

definition long_transport :: "request \<Rightarrow> transport_call" where
  "long_transport r =
     \<lparr>call_result = Done (Some long_response, None), call_events = [], call_seconds = 0.25\<rparr>"

definition billing_world :: world where
  "billing_world =
     \<lparr>metrics = new_outgoingInstrumentation ''app'' [(''recipient'', ''billing'')], clock = 0\<rparr>"

definition base_client :: "(string, string) http_Client" where
  "base_client = \<lparr>CheckRedirect = ''follow'', Jar = ''jar'', Timeout = 30, Transport = None\<rparr>"

definition billing_client :: "registry Client" where
  "billing_client = \<lparr>Client_http = Some 0, Registerer = [], Client_Namespace = ''app''\<rparr>"

text \<open>A wrapper whose embedded \<open>*http.Client\<close> is nil.\<close>

definition nil_client :: "registry Client" where
  "nil_client = \<lparr>Client_http = None, Registerer = [], Client_Namespace = ''app''\<rparr>"

definition billing_metrics :: outgoingInstrumentation where
  "billing_metrics = new_outgoingInstrumentation ''app'' [(''recipient'', ''billing'')]"

text \<open>The same wrapper once \<open>ForRecipient\<close> has registered the metric set of billing.\<close>

definition billing_client_again :: "registry Client" where
  "billing_client_again =
     billing_client\<lparr>Registerer := snd (registry_Register billing_metrics [])\<rparr>"

section \<open>The approximate size estimator\<close>

lemma values_loop_eq: "values_loop vs s = s + word_of_int (\<Sum>v \<leftarrow> vs. int (length v))"
  by (induction vs arbitrary: s) (simp_all add: len_def)

lemma header_loop_eq: "header_loop h s = s + word_of_int (spec_header_size h)"
  by (induction h arbitrary: s) (auto simp: len_def spec_header_size_def values_loop_eq)

lemma sint_minus1_iff: "sint (w :: go_int) = - 1 \<longleftrightarrow> w = - 1"
proof
  assume "sint w = - 1"
  then have "sint w = sint (- 1 :: go_int)" by simp
  then show "w = - 1" by (rule signed_word_eqI)
qed simp

text \<open>In Go's wrapping arithmetic the estimator is the specification's sum.\<close>

lemma compute_eq: "computeApproximateRequestSize r = word_of_int (spec_request_size r)"
  by (simp add: computeApproximateRequestSize_def spec_request_size_def header_loop_eq
      len_def Let_def sint_minus1_iff split: option.splits)

lemma spec_header_size_mset:
  "mset h = mset h' \<Longrightarrow> spec_header_size h = spec_header_size h'"
proof -
  assume "mset h = mset h'"
  then have "mset (map (\<lambda>(name, values). int (length name) + (\<Sum>v \<leftarrow> values. int (length v))) h)
           = mset (map (\<lambda>(name, values). int (length name) + (\<Sum>v \<leftarrow> values. int (length v))) h')"
    by (metis mset_map)
  then show ?thesis
    unfolding spec_header_size_def by (metis sum_mset_sum_list)
qed

text \<open>
  Go ranges over a map in no fixed order; the estimate does not depend on the order in
  which the headers are visited.
\<close>

lemma header_loop_order: "mset h = mset h' \<Longrightarrow> header_loop h s = header_loop h' s"
  using spec_header_size_mset [of h h'] by (simp add: header_loop_eq)

lemma values_size_nonneg: "0 \<le> (\<Sum>v \<leftarrow> vs. int (length v))"
  by (induction vs) simp_all

lemma spec_header_size_nonneg: "0 \<le> spec_header_size h"
proof (induction h)
  case Nil
  show ?case by (simp add: spec_header_size_def)
next
  case (Cons p h)
  obtain n vs where p: "p = (n, vs)" by (cases p)
  from Cons values_size_nonneg [of vs] show ?case
    by (simp add: spec_header_size_def p)
qed

lemma spec_request_size_nonneg:
  assumes "- 1 \<le> sint (ContentLength r)"
  shows "0 \<le> spec_request_size r"
  using assms spec_header_size_nonneg [of "Header r"]
  by (auto simp: spec_request_size_def split: option.splits)

lemma sint_word_of_int_fits:
  "- (2 ^ 63) \<le> k \<Longrightarrow> k < 2 ^ 63 \<Longrightarrow> sint (word_of_int k :: go_int) = k"
  by (simp add: sint_sbintrunc' signed_take_bit_int_eq_self)

lemma sint_succ:
  fixes w :: go_int
  assumes "sint w \<noteq> 2 ^ 63 - 1"
  shows "sint (w + 1) = sint w + 1"
proof -
  have lo: "- (2 ^ 63) \<le> sint w" using sint_ge [of w] by simp
  have hi: "sint w < 2 ^ 63" using sint_lt [of w] by simp
  with assms have "sint w + 1 < 2 ^ 63" by simp
  moreover from lo have "- (2 ^ 63) \<le> sint w + 1" by simp
  ultimately show ?thesis
    by (simp add: sint_word_add signed_take_bit_int_eq_self)
qed

lemma spec_request_size_get_request: "spec_request_size get_request = 36"
  by (simp add: spec_request_size_def spec_header_size_def get_request_def)

text \<open>
  Claim C4, as the specification states it, fails: a request whose declared content
  length is \<open>-2\<close> and whose other parts are empty is estimated at \<open>-2\<close>, a negative
  size. Only the value \<open>-1\<close> is skipped on line 174.
\<close>

theorem size_negative_counterexample:
  "sint (computeApproximateRequestSize negative_length_request) = - 2
   \<and> \<not> 0 \<le> sint (computeApproximateRequestSize negative_length_request)"
  by (simp add: computeApproximateRequestSize_def negative_length_request_def
      empty_request_def len_def)

text \<open>
  Claim C4, amended: for every request whose declared content length is at least \<open>-1\<close>
  and whose sum of parts is below \<open>2 ^ 63\<close>, the estimator returns that sum (the
  sentinel \<open>-1\<close> contributing zero), and it is non-negative. The estimator is a total
  function: it returns on every request, the empty one included.
\<close>

theorem size_is_sum_of_parts:
  assumes "- 1 \<le> sint (ContentLength r)" and "spec_request_size r < 2 ^ 63"
  shows "sint (computeApproximateRequestSize r) = spec_request_size r
         \<and> 0 \<le> sint (computeApproximateRequestSize r)"
proof -
  have n: "0 \<le> spec_request_size r" by (rule spec_request_size_nonneg [OF assms(1)])
  then have "sint (word_of_int (spec_request_size r) :: go_int) = spec_request_size r"
    using assms(2) by (intro sint_word_of_int_fits) simp_all
  with n show ?thesis by (simp add: compute_eq)
qed

theorem size_is_sum_of_parts_witness:
  "- 1 \<le> sint (ContentLength get_request) \<and> spec_request_size get_request < 2 ^ 63
   \<and> sint (computeApproximateRequestSize get_request) = 36
   \<and> sint (computeApproximateRequestSize empty_request) = 0"
proof -
  have h1: "- 1 \<le> sint (ContentLength get_request)" by (simp add: get_request_def)
  have h2: "spec_request_size get_request < 2 ^ 63" by (simp add: spec_request_size_get_request)
  have e1: "- 1 \<le> sint (ContentLength empty_request)" by (simp add: empty_request_def)
  have e2: "spec_request_size empty_request < 2 ^ 63"
    by (simp add: spec_request_size_def spec_header_size_def empty_request_def)
  have e3: "spec_request_size empty_request = 0"
    by (simp add: spec_request_size_def spec_header_size_def empty_request_def)
  from size_is_sum_of_parts [OF h1 h2] size_is_sum_of_parts [OF e1 e2] h1 h2 e3
  show ?thesis by (simp add: spec_request_size_get_request)
qed

lemma values_size_append:
  "j < length vs \<Longrightarrow>
   (\<Sum>v \<leftarrow> append_to_value j s vs. int (length v))
     = (\<Sum>v \<leftarrow> vs. int (length v)) + int (length s)"
proof (induction vs arbitrary: j)
  case Nil
  then show ?case by simp
next
  case (Cons v vs)
  then show ?case by (cases j) (simp_all add: append_to_value_def)
qed

lemma spec_header_size_append:
  "i < length h \<Longrightarrow> j < length (snd (h ! i)) \<Longrightarrow>
   spec_header_size (h[i := (fst (h ! i), append_to_value j s (snd (h ! i)))])
     = spec_header_size h + int (length s)"
proof (induction h arbitrary: i)
  case Nil
  then show ?case by simp
next
  case (Cons p h)
  obtain n vs where p: "p = (n, vs)" by (cases p)
  show ?case
  proof (cases i)
    case 0
    with Cons.prems p show ?thesis
      by (simp add: spec_header_size_def values_size_append)
  next
    case (Suc k)
    with Cons.prems have "k < length h" "j < length (snd (h ! k))" by simp_all
    from Cons.IH [OF this] Suc p show ?thesis
      by (simp add: spec_header_size_def)
  qed
qed

lemma spec_request_size_append:
  "i < length (Header r) \<Longrightarrow> j < length (snd (Header r ! i)) \<Longrightarrow>
   spec_request_size (append_to_header_value i j s r) = spec_request_size r + int (length s)"
  by (simp add: spec_request_size_def append_to_header_value_def spec_header_size_append)

text \<open>In Go's wrapping arithmetic, appending bytes adds their number to the estimate.\<close>

lemma size_append_wrapping:
  assumes "i < length (Header r)" and "j < length (snd (Header r ! i))"
  shows "computeApproximateRequestSize (append_to_header_value i j s r)
           = computeApproximateRequestSize r + len s"
  by (simp add: compute_eq spec_request_size_append [OF assms] len_def)

lemma largest_request_size:
  "sint (computeApproximateRequestSize largest_request) = 9223372036854775807"
  by (simp add: computeApproximateRequestSize_def largest_request_def len_def)

text \<open>
  Claim C5, as the specification states it, fails twice. The estimate of a request can be
  the largest \<open>int\<close>, and one more byte in a header value then wraps it to the smallest
  one. And a character is not always one byte: appending the letter e with an acute
  accent, the two bytes \<open>0xC3 0xA9\<close>, adds two.
\<close>

theorem size_not_monotonic_counterexample:
  "sint (computeApproximateRequestSize largest_request) = 9223372036854775807
   \<and> sint (computeApproximateRequestSize (append_to_header_value 0 0 ''a'' largest_request))
       = - 9223372036854775808
   \<and> sint (computeApproximateRequestSize get_request) = 36
   \<and> sint (computeApproximateRequestSize
         (append_to_header_value 0 1 [CHR 0xC3, CHR 0xA9] get_request)) = 38"
  by (simp add: computeApproximateRequestSize_def largest_request_def get_request_def
      append_to_header_value_def append_to_value_def len_def)

text \<open>
  Claim C5, amended: for every request whose estimated size is not the largest \<open>int\<close>,
  \<open>2 ^ 63 - 1\<close>, appending any single byte to any one of its header values (the \<open>j\<close>-th
  value of its \<open>i\<close>-th header) increases the estimated size by exactly one, so the
  estimate is strictly larger.
\<close>

theorem size_monotonic_in_header_value:
  assumes "i < length (Header r)" and "j < length (snd (Header r ! i))"
    and "sint (computeApproximateRequestSize r) \<noteq> 2 ^ 63 - 1"
  shows "sint (computeApproximateRequestSize (append_to_header_value i j [c] r))
           = sint (computeApproximateRequestSize r) + 1
         \<and> sint (computeApproximateRequestSize r)
             < sint (computeApproximateRequestSize (append_to_header_value i j [c] r))"
proof -
  have "computeApproximateRequestSize (append_to_header_value i j [c] r)
          = computeApproximateRequestSize r + 1"
    by (simp add: size_append_wrapping [OF assms(1,2)] len_def)
  with sint_succ [OF assms(3)] show ?thesis by simp
qed

theorem size_monotonic_in_header_value_witness:
  "(0::nat) < length (Header get_request) \<and> (1::nat) < length (snd (Header get_request ! 0))
   \<and> sint (computeApproximateRequestSize get_request) \<noteq> 2 ^ 63 - 1
   \<and> sint (computeApproximateRequestSize get_request) = 36
   \<and> sint (computeApproximateRequestSize (append_to_header_value 0 1 ''d'' get_request)) = 37"
proof -
  have h1: "(0::nat) < length (Header get_request)" by (simp add: get_request_def)
  have h2: "(1::nat) < length (snd (Header get_request ! 0))" by (simp add: get_request_def)
  have v: "sint (computeApproximateRequestSize get_request) = 36"
    by (simp add: computeApproximateRequestSize_def get_request_def len_def)
  have h3: "sint (computeApproximateRequestSize get_request) \<noteq> 2 ^ 63 - 1"
    by (simp add: v)
  from size_monotonic_in_header_value [OF h1 h2 h3, of "CHR ''d''"]
  have "sint (computeApproximateRequestSize (append_to_header_value 0 1 ''d'' get_request))
          = sint (computeApproximateRequestSize get_request) + 1"
    by blast
  with v h1 h2 h3 show ?thesis by simp
qed

section \<open>The layers and the chain\<close>

lemma RequestSize_result:
  "fst (RoundTrip dt next r w) \<noteq> Done (None, None) \<Longrightarrow>
   fst (RoundTrip dt (instrumentRoundTripperRequestSize obs next) r w) = fst (RoundTrip dt next r w)"
  by (auto simp: Let_def split: prod.splits exec.splits option.splits)

lemma ResponseContentLength_result:
  "fst (RoundTrip dt next r w) \<noteq> Done (None, None) \<Longrightarrow>
   fst (RoundTrip dt (instrumentRoundTripperResponseContentLength obs next) r w) = fst (RoundTrip dt next r w)"
  by (auto simp: Let_def split: prod.splits exec.splits option.splits)

lemma Counter_result:
  "fst (RoundTrip dt next r w) \<noteq> Done (None, None) \<Longrightarrow>
   fst (RoundTrip dt (InstrumentRoundTripperCounter c next) r w) = fst (RoundTrip dt next r w)"
  by (auto simp: Let_def split: prod.splits exec.splits option.splits)

lemma Duration_result:
  "fst (RoundTrip dt (InstrumentRoundTripperDuration obs next) r w) = fst (RoundTrip dt next r w)"
  by (auto simp: Let_def split: prod.splits exec.splits option.splits)

lemma InFlight_result:
  "fst (RoundTrip dt (InstrumentRoundTripperInFlight g next) r w) = fst (RoundTrip dt next r (gauge_add 1 w))"
  by (auto simp: Let_def split: prod.splits exec.splits option.splits)

lemma run_transport_result: "fst (run_transport c r w) = call_result c"
  by (simp add: run_transport_def Let_def)

text \<open>The pair a round tripper returns does not depend on the world it runs in.\<close>
lemma RoundTrip_result_world:
  "fst (RoundTrip dt rt r w) = fst (RoundTrip dt rt r w')"
proof (induction rt arbitrary: r w w')
  case (Transport_of t)
  show ?case by (simp add: run_transport_result)
next
  case DefaultTransport
  show ?case by (simp add: run_transport_result)
next
  case (InstrumentRoundTripperInFlight g rt)
  show ?case unfolding InFlight_result by (rule InstrumentRoundTripperInFlight)
next
  case (InstrumentRoundTripperCounter c rt)
  from InstrumentRoundTripperCounter [of r w w'] show ?case
    by (auto split: prod.splits exec.splits option.splits)
next
  case (InstrumentRoundTripperTrace t rt)
  then show ?case by simp
next
  case (instrumentRoundTripperRequestSize obs rt)
  from instrumentRoundTripperRequestSize [of r w w'] show ?case
    by (auto simp: Let_def split: prod.splits exec.splits option.splits)
next
  case (instrumentRoundTripperResponseContentLength obs rt)
  from instrumentRoundTripperResponseContentLength [of r w w'] show ?case
    by (auto simp: Let_def split: prod.splits exec.splits option.splits)
next
  case (InstrumentRoundTripperDuration obs rt)
  show ?case unfolding Duration_result by (rule InstrumentRoundTripperDuration)
qed

lemma chain_result:
  assumes "fst (RoundTrip dt transport (r\<lparr>Context := Some trace\<rparr>) w) \<noteq> Done (None, None)"
  shows "fst (RoundTrip dt (decorator_chain transport) r w)
           = fst (RoundTrip dt transport (r\<lparr>Context := Some trace\<rparr>) w)"
proof -
  let ?r = "r\<lparr>Context := Some trace\<rparr>" and ?w = "gauge_add 1 w"
  have a: "fst (RoundTrip dt transport ?r ?w) = fst (RoundTrip dt transport ?r w)"
    by (rule RoundTrip_result_world)
  let ?d = "InstrumentRoundTripperDuration Ref_duration transport"
  have d: "fst (RoundTrip dt ?d ?r ?w) = fst (RoundTrip dt transport ?r w)"
    by (simp only: Duration_result a)
  let ?l = "instrumentRoundTripperResponseContentLength Ref_responseContentLength ?d"
  have l: "fst (RoundTrip dt ?l ?r ?w) = fst (RoundTrip dt transport ?r w)"
    using ResponseContentLength_result [of dt ?d ?r ?w] assms by (simp only: d) simp
  let ?s = "instrumentRoundTripperRequestSize Ref_requestSize ?l"
  have s: "fst (RoundTrip dt ?s ?r ?w) = fst (RoundTrip dt transport ?r w)"
    using RequestSize_result [of dt ?l ?r ?w] assms by (simp only: l) simp
  let ?t = "InstrumentRoundTripperTrace trace ?s"
  have t: "fst (RoundTrip dt ?t r ?w) = fst (RoundTrip dt transport ?r w)"
    using s by simp
  let ?c = "InstrumentRoundTripperCounter Ref_requests ?t"
  have c: "fst (RoundTrip dt ?c r ?w) = fst (RoundTrip dt transport ?r w)"
    using Counter_result [of dt ?t r ?w] assms by (simp only: t) simp
  show ?thesis
    unfolding decorator_chain_def InFlight_result by (rule c)
qed

lemma size_Context [simp]:
  "computeApproximateRequestSize (r\<lparr>Context := x\<rparr>) = computeApproximateRequestSize r"
  by (simp add: computeApproximateRequestSize_def Let_def)

text \<open>The hooks of the trace write to the DNS and TLS histograms only.\<close>
lemma fire_trace_frame:
  "requests (fire trace ev i) = requests i"
  "requestSize (fire trace ev i) = requestSize i"
  "responseContentLength (fire trace ev i) = responseContentLength i"
  "duration (fire trace ev i) = duration i"
  "inflight (fire trace ev i) = inflight i"
  by (cases ev; simp add: trace_def)+

lemma fold_fire_trace_frame:
  "requests (fold (fire trace) evs i) = requests i"
  "requestSize (fold (fire trace) evs i) = requestSize i"
  "responseContentLength (fold (fire trace) evs i) = responseContentLength i"
  "duration (fold (fire trace) evs i) = duration i"
  "inflight (fold (fire trace) evs i) = inflight i"
  by (induction evs arbitrary: i; simp add: fire_trace_frame)+

lemma run_transport_world:
  "metrics (snd (run_transport c (r\<lparr>Context := Some trace\<rparr>) w))
     = fold (fire trace) (call_events c) (metrics w)"
  by (simp add: run_transport_def Let_def)

text \<open>What a transport that the chain did not build leaves of the three instruments.\<close>
lemma opaque_frame:
  assumes "layers transport = []"
  shows "requests (metrics (snd (RoundTrip dt transport (r\<lparr>Context := Some trace\<rparr>) w)))
           = requests (metrics w)"
    and "requestSize (metrics (snd (RoundTrip dt transport (r\<lparr>Context := Some trace\<rparr>) w)))
           = requestSize (metrics w)"
    and "responseContentLength (metrics (snd (RoundTrip dt transport (r\<lparr>Context := Some trace\<rparr>) w)))
           = responseContentLength (metrics w)"
  using assms by (cases transport; simp add: run_transport_world fold_fire_trace_frame)+

lemma observe_frame [simp]:
  "requests (metrics (observe obs l v w)) = requests (metrics w)"
  "obs \<noteq> Ref_requestSize \<Longrightarrow> requestSize (metrics (observe obs l v w)) = requestSize (metrics w)"
  "obs \<noteq> Ref_responseContentLength \<Longrightarrow>
     responseContentLength (metrics (observe obs l v w)) = responseContentLength (metrics w)"
  by (cases obs; simp add: observe_def)+

lemma observe_requestSize [simp]:
  "observations (requestSize (metrics (observe Ref_requestSize l v w)))
     = observations (requestSize (metrics w)) @ [(l, v)]"
  by (simp add: observe_def Observe_def)

lemma observe_responseContentLength [simp]:
  "observations (responseContentLength (metrics (observe Ref_responseContentLength l v w)))
     = observations (responseContentLength (metrics w)) @ [(l, v)]"
  by (simp add: observe_def Observe_def)

lemma gauge_add_frame [simp]:
  "requests (metrics (gauge_add d w)) = requests (metrics w)"
  "requestSize (metrics (gauge_add d w)) = requestSize (metrics w)"
  "responseContentLength (metrics (gauge_add d w)) = responseContentLength (metrics w)"
  by (simp_all add: gauge_add_def)

lemma counter_Inc_frame [simp]:
  "requestSize (metrics (counter_Inc l w)) = requestSize (metrics w)"
  "responseContentLength (metrics (counter_Inc l w)) = responseContentLength (metrics w)"
  "increments (requests (metrics (counter_Inc l w))) = increments (requests (metrics w)) @ [l]"
  by (simp_all add: counter_Inc_def)

lemma clock_gauge_add [simp]: "clock (gauge_add d w) = clock w"
  by (simp add: gauge_add_def)

text \<open>The world the chain leaves behind, by the pair the transport returns.\<close>

lemma chain_world_error:
  assumes "fst (RoundTrip dt transport (r\<lparr>Context := Some trace\<rparr>) w) = Done (resp, Some e)"
  shows "snd (RoundTrip dt (decorator_chain transport) r w)
     = (let w1 = snd (RoundTrip dt transport (r\<lparr>Context := Some trace\<rparr>) (gauge_add 1 w))
        in gauge_add (- 1)
             (observe Ref_duration [(''method'', ToLower (Method r))] (clock w1 - clock w) w1))"
proof -
  let ?r = "r\<lparr>Context := Some trace\<rparr>" and ?w = "gauge_add 1 w"
  have "fst (RoundTrip dt transport ?r ?w) = Done (resp, Some e)"
    using assms RoundTrip_result_world [of dt transport ?r ?w w] by simp
  then obtain w1 where "RoundTrip dt transport ?r ?w = (Done (resp, Some e), w1)"
    by (cases "RoundTrip dt transport ?r ?w") simp
  then show ?thesis
    by (cases resp) (simp_all add: decorator_chain_def Let_def)
qed

lemma chain_world_success:
  assumes "fst (RoundTrip dt transport (r\<lparr>Context := Some trace\<rparr>) w) = Done (Some rp, None)"
  shows "snd (RoundTrip dt (decorator_chain transport) r w)
     = (let w1 = snd (RoundTrip dt transport (r\<lparr>Context := Some trace\<rparr>) (gauge_add 1 w));
            labels = [(''code'', Sprint (StatusCode rp)), (''method'', ToLower (Method r))]
        in gauge_add (- 1)
            (counter_Inc labels
              (observe Ref_requestSize labels (float64 (computeApproximateRequestSize r))
                (observe Ref_responseContentLength labels (float64 (resp_ContentLength rp))
                  (observe Ref_duration [(''method'', ToLower (Method r))] (clock w1 - clock w) w1)))))"
proof -
  let ?r = "r\<lparr>Context := Some trace\<rparr>" and ?w = "gauge_add 1 w"
  have "fst (RoundTrip dt transport ?r ?w) = Done (Some rp, None)"
    using assms RoundTrip_result_world [of dt transport ?r ?w w] by simp
  then obtain w1 where "RoundTrip dt transport ?r ?w = (Done (Some rp, None), w1)"
    by (cases "RoundTrip dt transport ?r ?w") simp
  then show ?thesis
    by (simp add: decorator_chain_def Let_def)
qed

lemma Sprint_200: "Sprint 200 = ''200''"
  by (simp add: Sprint_def decimal.simps)

lemma ToLower_GET: "ToLower ''GET'' = ''get''"
  by (simp add: ToLower_def toLower_byte_def)

lemma failing_result:
  "fst (RoundTrip dt (Transport_of failing_transport) r w)
     = Done (None, Some (Error ''connection refused''))"
  by (simp add: run_transport_result failing_transport_def)

lemma ok_result:
  "fst (RoundTrip dt (Transport_of ok_transport) r w) = Done (Some ok_response, None)"
  by (simp add: run_transport_result ok_transport_def)

lemma unknown_length_result:
  "fst (RoundTrip dt (Transport_of unknown_length_transport) r w)
     = Done (Some unknown_length_response, None)"
  by (simp add: run_transport_result unknown_length_transport_def)

lemma nil_result:
  "fst (RoundTrip dt (Transport_of nil_transport) r w) = Done (None, None)"
  by (simp add: run_transport_result nil_transport_def)

text \<open>
  Claim C1, as the specification states it, fails for a transport that returns a nil
  response together with a nil error: the transport returns, and each of the two layers
  of client.go panics on reading \<open>resp.StatusCode\<close> (lines 146 and 185).
\<close>

theorem layers_panic_counterexample:
  "fst (RoundTrip ok_transport (Transport_of nil_transport) get_request billing_world)
     = Done (None, None)
   \<and> fst (RoundTrip ok_transport
        (instrumentRoundTripperRequestSize Ref_requestSize (Transport_of nil_transport))
        get_request billing_world) = Panic
   \<and> fst (RoundTrip ok_transport
        (instrumentRoundTripperResponseContentLength Ref_responseContentLength
          (Transport_of nil_transport))
        get_request billing_world) = Panic"
  by (simp add: run_transport_def nil_transport_def)

text \<open>
  Claim C1, amended: for every request, every state of the metrics and every underlying
  transport whose call does not return a nil response together with a nil error, the
  request-size layer and the response-content-length layer return the very pair
  \<open>(resp, err)\<close> that the round tripper they wrap returns (and panic when it panics):
  no layer recovers from, retries or wraps the error. So does the whole chain with
  respect to its base transport, which receives the request with the trace in its
  context: the chain does not change the outcome of the call.
\<close>

theorem layers_return_transport_outcome:
  "(fst (RoundTrip dt next r w) \<noteq> Done (None, None) \<longrightarrow>
      fst (RoundTrip dt (instrumentRoundTripperRequestSize obs next) r w)
        = fst (RoundTrip dt next r w)
      \<and> fst (RoundTrip dt (instrumentRoundTripperResponseContentLength obs next) r w)
        = fst (RoundTrip dt next r w))
   \<and> (fst (RoundTrip dt transport (r\<lparr>Context := Some trace\<rparr>) w) \<noteq> Done (None, None) \<longrightarrow>
      fst (RoundTrip dt (decorator_chain transport) r w)
        = fst (RoundTrip dt transport (r\<lparr>Context := Some trace\<rparr>) w))"
  using RequestSize_result [of dt "next" r w obs]
    ResponseContentLength_result [of dt "next" r w obs] chain_result [of dt transport r w]
  by blast

theorem layers_return_transport_outcome_witness:
  "fst (RoundTrip ok_transport (Transport_of failing_transport) get_request billing_world)
      \<noteq> Done (None, None)
   \<and> fst (RoundTrip ok_transport
        (instrumentRoundTripperRequestSize Ref_requestSize (Transport_of failing_transport))
        get_request billing_world) = Done (None, Some (Error ''connection refused''))
   \<and> fst (RoundTrip ok_transport
        (instrumentRoundTripperResponseContentLength Ref_responseContentLength
          (Transport_of failing_transport))
        get_request billing_world) = Done (None, Some (Error ''connection refused''))
   \<and> fst (RoundTrip ok_transport (decorator_chain (Transport_of ok_transport))
        get_request billing_world) = Done (Some ok_response, None)"
proof -
  let ?f = "Transport_of failing_transport" and ?k = "Transport_of ok_transport"
  have f: "fst (RoundTrip ok_transport ?f get_request billing_world) \<noteq> Done (None, None)"
    by (simp only: failing_result) simp
  have k: "fst (RoundTrip ok_transport ?k (get_request\<lparr>Context := Some trace\<rparr>) billing_world)
             \<noteq> Done (None, None)"
    by (simp only: ok_result) simp
  from layers_return_transport_outcome
         [of ok_transport ?f get_request billing_world Ref_requestSize ?k] f k
  have a: "fst (RoundTrip ok_transport (instrumentRoundTripperRequestSize Ref_requestSize ?f)
             get_request billing_world)
           = fst (RoundTrip ok_transport ?f get_request billing_world)"
    and c: "fst (RoundTrip ok_transport (decorator_chain ?k) get_request billing_world)
           = fst (RoundTrip ok_transport ?k (get_request\<lparr>Context := Some trace\<rparr>) billing_world)"
    by blast+
  from layers_return_transport_outcome
         [of ok_transport ?f get_request billing_world Ref_responseContentLength ?k] f
  have b: "fst (RoundTrip ok_transport
             (instrumentRoundTripperResponseContentLength Ref_responseContentLength ?f)
             get_request billing_world)
           = fst (RoundTrip ok_transport ?f get_request billing_world)"
    by blast
  from a b c f show ?thesis
    by (simp only: failing_result ok_result) simp
qed

section \<open>What the layers record\<close>

text \<open>The conversion to \<open>float64\<close> is exact up to \<open>2 ^ 53\<close> and keeps the sign.\<close>

lemma round_to_float64_small: "m \<le> 2 ^ 53 \<Longrightarrow> round_to_float64 m = m"
proof (cases "m < 2 ^ 53")
  case True
  then have "excess_bits m = 0" by (simp add: excess_bits.simps)
  then show ?thesis by (simp add: round_to_float64_def)
next
  case False
  assume "m \<le> 2 ^ 53"
  with False have m: "m = 2 ^ 53" by simp
  have "excess_bits (2 ^ 53) = Suc 0"
    by (simp add: excess_bits.simps [of "9007199254740992"]
        excess_bits.simps [of "4503599627370496"])
  then show ?thesis by (simp add: round_to_float64_def m)
qed

lemma float64_exact:
  assumes "\<bar>sint n\<bar> \<le> 2 ^ 53"
  shows "float64 n = real_of_int (sint n)"
proof (cases "sint n < 0")
  case True
  with assms have "nat (- sint n) \<le> 2 ^ 53" by simp
  from round_to_float64_small [OF this] True show ?thesis by (simp add: float64_def)
next
  case False
  with assms have "nat (sint n) \<le> 2 ^ 53" by simp
  from round_to_float64_small [OF this] False show ?thesis by (simp add: float64_def)
qed

lemma round_to_float64_pos: "0 < m \<Longrightarrow> 0 < round_to_float64 m"
proof -
  assume m: "0 < m"
  have e: "2 ^ excess_bits k \<le> k \<or> excess_bits k = 0" for k
  proof (induction k rule: excess_bits.induct)
    case (1 k)
    show ?case
    proof (cases "k < 2 ^ 53")
      case True
      then show ?thesis by (simp add: excess_bits.simps)
    next
      case False
      then have s: "excess_bits k = Suc (excess_bits (k div 2))" by (simp add: excess_bits.simps)
      from 1 [OF False] have "2 ^ excess_bits (k div 2) \<le> k div 2 \<or> excess_bits (k div 2) = 0" .
      then show ?thesis
      proof
        assume "2 ^ excess_bits (k div 2) \<le> k div 2"
        then have "2 * 2 ^ excess_bits (k div 2) \<le> k" by simp
        then show ?thesis by (simp add: s)
      next
        assume "excess_bits (k div 2) = 0"
        with False show ?thesis by (simp add: s)
      qed
    qed
  qed
  let ?e = "excess_bits m"
  from e [of m] m have "2 ^ ?e \<le> m" by (cases "?e = 0") auto
  then have "0 < m div 2 ^ ?e" by (simp add: div_greater_zero_iff)
  then show ?thesis by (simp add: round_to_float64_def Let_def)
qed

lemma float64_negative: "sint n < 0 \<Longrightarrow> float64 n < 0"
  using round_to_float64_pos [of "nat (- sint n)"] by (simp add: float64_def)

lemma billing_world_empty:
  "increments (requests (metrics billing_world)) = []"
  "observations (requestSize (metrics billing_world)) = []"
  "observations (responseContentLength (metrics billing_world)) = []"
  by (simp_all add: billing_world_def new_outgoingInstrumentation_def)

lemma get_request_size: "float64 (computeApproximateRequestSize get_request) = 36"
  by (simp add: float64_exact computeApproximateRequestSize_def get_request_def len_def)

lemma get_request_labels:
  "[(''code'', Sprint (StatusCode ok_response)), (''method'', ToLower (Method get_request))]
     = [(''code'', ''200''), (''method'', ''get'')]"
  "[(''code'', Sprint (StatusCode unknown_length_response)), (''method'', ToLower (Method get_request))]
     = [(''code'', ''200''), (''method'', ''get'')]"
  by (simp_all add: ok_response_def unknown_length_response_def get_request_def Sprint_200 ToLower_GET)

text \<open>
  Claim C3: take the chain around a transport that is not itself made of these layers.
  When the call of the transport returns an error, the completion counter, the
  request-size histogram and the response-size histogram hold after the request what
  they held before it. When it returns a response and no error, the request-size
  histogram and the response-size histogram each hold exactly one observation more,
  under the labels \<open>code\<close>, the response's status code in decimal, and \<open>method\<close>,
  the request's method in lower case.
\<close>

theorem failed_call_records_nothing:
  assumes "layers transport = []"
  shows "(\<forall>resp e. fst (RoundTrip dt transport (r\<lparr>Context := Some trace\<rparr>) w) = Done (resp, Some e) \<longrightarrow>
            increments (requests (metrics (snd (RoundTrip dt (decorator_chain transport) r w))))
              = increments (requests (metrics w))
          \<and> observations (requestSize (metrics (snd (RoundTrip dt (decorator_chain transport) r w))))
              = observations (requestSize (metrics w))
          \<and> observations (responseContentLength
                (metrics (snd (RoundTrip dt (decorator_chain transport) r w))))
              = observations (responseContentLength (metrics w)))
       \<and> (\<forall>rp. fst (RoundTrip dt transport (r\<lparr>Context := Some trace\<rparr>) w) = Done (Some rp, None) \<longrightarrow>
            observations (requestSize (metrics (snd (RoundTrip dt (decorator_chain transport) r w))))
              = observations (requestSize (metrics w))
                @ [([(''code'', Sprint (StatusCode rp)), (''method'', ToLower (Method r))],
                    float64 (computeApproximateRequestSize r))]
          \<and> observations (responseContentLength
                (metrics (snd (RoundTrip dt (decorator_chain transport) r w))))
              = observations (responseContentLength (metrics w))
                @ [([(''code'', Sprint (StatusCode rp)), (''method'', ToLower (Method r))],
                    float64 (resp_ContentLength rp))])"
proof (intro conjI allI impI)
  fix resp e
  assume "fst (RoundTrip dt transport (r\<lparr>Context := Some trace\<rparr>) w) = Done (resp, Some e)"
  note w = chain_world_error [OF this]
  show "increments (requests (metrics (snd (RoundTrip dt (decorator_chain transport) r w))))
              = increments (requests (metrics w))"
    by (simp add: w Let_def opaque_frame [OF assms])
  show "observations (requestSize (metrics (snd (RoundTrip dt (decorator_chain transport) r w))))
              = observations (requestSize (metrics w))"
    by (simp add: w Let_def opaque_frame [OF assms])
  show "observations (responseContentLength
                (metrics (snd (RoundTrip dt (decorator_chain transport) r w))))
              = observations (responseContentLength (metrics w))"
    by (simp add: w Let_def opaque_frame [OF assms])
next
  fix rp
  assume "fst (RoundTrip dt transport (r\<lparr>Context := Some trace\<rparr>) w) = Done (Some rp, None)"
  note w = chain_world_success [OF this]
  show "observations (requestSize (metrics (snd (RoundTrip dt (decorator_chain transport) r w))))
              = observations (requestSize (metrics w))
                @ [([(''code'', Sprint (StatusCode rp)), (''method'', ToLower (Method r))],
                    float64 (computeApproximateRequestSize r))]"
    by (simp add: w Let_def opaque_frame [OF assms])
  show "observations (responseContentLength
                (metrics (snd (RoundTrip dt (decorator_chain transport) r w))))
              = observations (responseContentLength (metrics w))
                @ [([(''code'', Sprint (StatusCode rp)), (''method'', ToLower (Method r))],
                    float64 (resp_ContentLength rp))]"
    by (simp add: w Let_def opaque_frame [OF assms])
qed

theorem failed_call_records_nothing_witness:
  "layers (Transport_of failing_transport) = [] \<and> layers (Transport_of ok_transport) = []
   \<and> increments (requests (metrics (snd (RoundTrip ok_transport
         (decorator_chain (Transport_of failing_transport)) get_request billing_world)))) = []
   \<and> observations (requestSize (metrics (snd (RoundTrip ok_transport
         (decorator_chain (Transport_of failing_transport)) get_request billing_world)))) = []
   \<and> observations (responseContentLength (metrics (snd (RoundTrip ok_transport
         (decorator_chain (Transport_of failing_transport)) get_request billing_world)))) = []
   \<and> observations (requestSize (metrics (snd (RoundTrip ok_transport
         (decorator_chain (Transport_of ok_transport)) get_request billing_world))))
       = [([(''code'', ''200''), (''method'', ''get'')], 36)]
   \<and> observations (responseContentLength (metrics (snd (RoundTrip ok_transport
         (decorator_chain (Transport_of ok_transport)) get_request billing_world))))
       = [([(''code'', ''200''), (''method'', ''get'')], 42)]"
proof -
  let ?f = "Transport_of failing_transport" and ?k = "Transport_of ok_transport"
  have hf: "layers ?f = []" and hk: "layers ?k = []" by simp_all
  from failed_call_records_nothing [OF hf, of ok_transport get_request billing_world]
    failing_result [of ok_transport "get_request\<lparr>Context := Some trace\<rparr>" billing_world]
  have f: "increments (requests (metrics (snd (RoundTrip ok_transport
             (decorator_chain ?f) get_request billing_world))))
             = increments (requests (metrics billing_world))
        \<and> observations (requestSize (metrics (snd (RoundTrip ok_transport
             (decorator_chain ?f) get_request billing_world))))
             = observations (requestSize (metrics billing_world))
        \<and> observations (responseContentLength (metrics (snd (RoundTrip ok_transport
             (decorator_chain ?f) get_request billing_world))))
             = observations (responseContentLength (metrics billing_world))"
    by blast
  from failed_call_records_nothing [OF hk, of ok_transport get_request billing_world]
    ok_result [of ok_transport "get_request\<lparr>Context := Some trace\<rparr>" billing_world]
  have k: "observations (requestSize (metrics (snd (RoundTrip ok_transport
             (decorator_chain ?k) get_request billing_world))))
             = observations (requestSize (metrics billing_world))
                @ [([(''code'', Sprint (StatusCode ok_response)),
                     (''method'', ToLower (Method get_request))],
                    float64 (computeApproximateRequestSize get_request))]
        \<and> observations (responseContentLength (metrics (snd (RoundTrip ok_transport
             (decorator_chain ?k) get_request billing_world))))
             = observations (responseContentLength (metrics billing_world))
                @ [([(''code'', Sprint (StatusCode ok_response)),
                     (''method'', ToLower (Method get_request))],
                    float64 (resp_ContentLength ok_response))]"
    by blast
  have v: "float64 (resp_ContentLength ok_response) = 42"
    by (simp add: float64_exact ok_response_def)
  from f k hf hk show ?thesis
    by (simp only: billing_world_empty get_request_size get_request_labels v append_Nil)
qed

lemma ResponseContentLength_world:
  assumes "fst (RoundTrip dt next r w) = Done (Some rp, None)"
  shows "snd (RoundTrip dt (instrumentRoundTripperResponseContentLength obs next) r w)
     = observe obs [(''code'', Sprint (StatusCode rp)), (''method'', ToLower (Method r))]
         (float64 (resp_ContentLength rp)) (snd (RoundTrip dt next r w))"
proof -
  from assms obtain w1 where "RoundTrip dt next r w = (Done (Some rp, None), w1)"
    by (cases "RoundTrip dt next r w") simp
  then show ?thesis by (simp add: Let_def)
qed

lemma unknown_length_world:
  "observations (responseContentLength (metrics (snd (RoundTrip dt
      (Transport_of unknown_length_transport) get_request billing_world)))) = []"
  by (simp add: run_transport_def get_request_def billing_world_empty)

lemma long_result:
  "fst (RoundTrip dt (Transport_of long_transport) r w) = Done (Some long_response, None)"
  by (simp add: run_transport_result long_transport_def)

lemma long_world:
  "observations (responseContentLength (metrics (snd (RoundTrip dt
      (Transport_of long_transport) get_request billing_world)))) = []"
  by (simp add: run_transport_def get_request_def billing_world_empty)

lemma float64_long: "float64 (resp_ContentLength long_response) = 9007199254740992"
  by (simp add: long_response_def float64_def round_to_float64_def
      excess_bits.simps [of "9007199254740993"] excess_bits.simps [of "4503599627370496"])

text \<open>
  Claim C6, as the specification states it, fails for long responses: a declared content
  length of \<open>2 ^ 53 + 1\<close> is observed as \<open>2 ^ 53\<close>, since line 189 converts the length
  to \<open>float64\<close>.
\<close>

theorem response_length_rounded_counterexample:
  "sint (resp_ContentLength long_response) = 9007199254740993
   \<and> fst (RoundTrip ok_transport (Transport_of long_transport) get_request billing_world)
       = Done (Some long_response, None)
   \<and> observations (responseContentLength (metrics (snd (RoundTrip ok_transport
         (instrumentRoundTripperResponseContentLength Ref_responseContentLength
            (Transport_of long_transport)) get_request billing_world))))
       = [([(''code'', ''200''), (''method'', ''get'')], 9007199254740992)]"
proof -
  have l: "[(''code'', Sprint (StatusCode long_response)), (''method'', ToLower (Method get_request))]
             = [(''code'', ''200''), (''method'', ''get'')]"
    by (simp add: long_response_def get_request_def Sprint_200 ToLower_GET)
  have "snd (RoundTrip ok_transport
          (instrumentRoundTripperResponseContentLength Ref_responseContentLength
            (Transport_of long_transport)) get_request billing_world)
        = observe Ref_responseContentLength [(''code'', ''200''), (''method'', ''get'')]
            9007199254740992
            (snd (RoundTrip ok_transport (Transport_of long_transport) get_request billing_world))"
    by (simp only: ResponseContentLength_world [OF long_result] l float64_long)
  then have "observations (responseContentLength (metrics (snd (RoundTrip ok_transport
         (instrumentRoundTripperResponseContentLength Ref_responseContentLength
            (Transport_of long_transport)) get_request billing_world))))
       = [([(''code'', ''200''), (''method'', ''get'')], 9007199254740992)]"
    by (simp only: observe_responseContentLength long_world append_Nil)
  moreover have "sint (resp_ContentLength long_response) = 9007199254740993"
    by (simp add: long_response_def)
  ultimately show ?thesis
    using long_result [of ok_transport get_request billing_world] by blast
qed

text \<open>
  Claim C6, amended: for every successful request, the response-size layer adds exactly
  one observation to the response-size histogram, the declared content length converted
  to \<open>float64\<close>. Whenever the magnitude of the length is at most \<open>2 ^ 53\<close> the observed
  value is the length exactly as declared, the value \<open>-1\<close> of an unknown length
  included; a negative length is observed as a negative value: it is never replaced by
  zero, and the observation is never left out.
\<close>

theorem response_length_observed_as_declared:
  assumes "fst (RoundTrip dt next r w) = Done (Some rp, None)"
  shows "observations (responseContentLength (metrics
           (snd (RoundTrip dt
              (instrumentRoundTripperResponseContentLength Ref_responseContentLength next) r w))))
         = observations (responseContentLength (metrics (snd (RoundTrip dt next r w))))
           @ [([(''code'', Sprint (StatusCode rp)), (''method'', ToLower (Method r))],
               float64 (resp_ContentLength rp))]
         \<and> (\<bar>sint (resp_ContentLength rp)\<bar> \<le> 2 ^ 53 \<longrightarrow>
               float64 (resp_ContentLength rp) = real_of_int (sint (resp_ContentLength rp)))
         \<and> (sint (resp_ContentLength rp) < 0 \<longrightarrow> float64 (resp_ContentLength rp) < 0)"
  unfolding ResponseContentLength_world [OF assms]
  by (simp add: float64_exact float64_negative)

theorem response_length_observed_as_declared_witness:
  "fst (RoundTrip ok_transport (Transport_of unknown_length_transport) get_request billing_world)
     = Done (Some unknown_length_response, None)
   \<and> sint (resp_ContentLength unknown_length_response) = - 1
   \<and> observations (responseContentLength (metrics (snd (RoundTrip ok_transport
         (instrumentRoundTripperResponseContentLength Ref_responseContentLength
            (Transport_of unknown_length_transport)) get_request billing_world))))
       = [([(''code'', ''200''), (''method'', ''get'')], - 1)]"
proof -
  let ?u = "Transport_of unknown_length_transport"
  have h: "fst (RoundTrip ok_transport ?u get_request billing_world)
             = Done (Some unknown_length_response, None)"
    by (rule unknown_length_result)
  have l: "sint (resp_ContentLength unknown_length_response) = - 1"
    by (simp add: unknown_length_response_def)
  have b: "\<bar>sint (resp_ContentLength unknown_length_response)\<bar> \<le> 2 ^ 53"
    by (simp add: l)
  from response_length_observed_as_declared [OF h] b
  have "observations (responseContentLength (metrics (snd (RoundTrip ok_transport
          (instrumentRoundTripperResponseContentLength Ref_responseContentLength ?u)
          get_request billing_world))))
        = observations (responseContentLength (metrics
            (snd (RoundTrip ok_transport ?u get_request billing_world))))
          @ [([(''code'', Sprint (StatusCode unknown_length_response)),
               (''method'', ToLower (Method get_request))],
              float64 (resp_ContentLength unknown_length_response))]"
    and "float64 (resp_ContentLength unknown_length_response)
          = real_of_int (sint (resp_ContentLength unknown_length_response))"
    by blast+
  with h l show ?thesis
    by (simp only: unknown_length_world get_request_labels append_Nil) simp
qed

section \<open>The client factory\<close>

lemma factory_Done:
  assumes "deref heap c = Some base"
  shows "instrumentClientWithConstLabels Register namespace c reg constLabels heap =
     Done \<lparr>ret_client = Some (length heap),
           ret_err = fst (Register (new_outgoingInstrumentation namespace constLabels) reg),
           ret_heap = heap @
             [\<lparr>CheckRedirect = CheckRedirect base, Jar = Jar base, Timeout = Timeout base,
               Transport = Some (decorator_chain
                 (case Transport base of None \<Rightarrow> DefaultTransport | Some t \<Rightarrow> t))\<rparr>],
           ret_reg = snd (Register (new_outgoingInstrumentation namespace constLabels) reg),
           ret_i = new_outgoingInstrumentation namespace constLabels\<rparr>"
  using assms
  by (simp add: instrumentClientWithConstLabels_def Let_def split: prod.splits)

lemma deref_new: "deref (heap @ [x]) (Some (length heap)) = Some x"
  by (simp add: deref_def)

lemma deref_old: "deref heap c = Some base \<Longrightarrow> deref (heap @ [x]) c = Some base"
  by (auto simp: deref_def nth_append split: option.splits if_splits)

lemma deref_fresh: "deref heap c = Some base \<Longrightarrow> Some (length heap) \<noteq> c"
  by (auto simp: deref_def split: option.splits if_splits)

lemma layers_chain:
  "layers (decorator_chain transport) =
     [InFlight_layer, Counter_layer, Trace_layer, RequestSize_layer,
      ResponseContentLength_layer, Duration_layer] @ layers transport"
  by (simp add: decorator_chain_def)

lemma unwrap_chain: "unwrap 6 (decorator_chain transport) = transport"
  by (simp add: decorator_chain_def eval_nat_numeral)

lemma base_deref: "deref [base_client] (Client_http billing_client) = Some base_client"
  by (simp add: deref_def billing_client_def)

lemma base_deref_again: "deref [base_client] (Client_http billing_client_again) = Some base_client"
  by (simp add: deref_def billing_client_def billing_client_again_def)

lemma base_transport: "Transport base_client = None"
  by (simp add: base_client_def)

text \<open>
  Claim C2: the transport of the client that \<open>ForRecipient\<close> returns is a chain whose
  layers are, from the outermost one inwards, the in-flight gauge layer, the completion
  counter layer, the phase-trace layer, the request-size layer, the response-size layer
  and the duration layer; what lies under these six is the base client's transport
  (the default transport when it has none).
\<close>
theorem chain_nesting_order:
  assumes "deref heap (Client_http c) = Some base"
  shows "\<exists>ret new rt. ForRecipient Register c recipient heap = Done ret
           \<and> deref (ret_heap ret) (ret_client ret) = Some new
           \<and> Transport new = Some rt
           \<and> layers rt =
               [InFlight_layer, Counter_layer, Trace_layer, RequestSize_layer,
                ResponseContentLength_layer, Duration_layer]
               @ layers (case Transport base of None \<Rightarrow> DefaultTransport | Some t \<Rightarrow> t)
           \<and> unwrap 6 rt = (case Transport base of None \<Rightarrow> DefaultTransport | Some t \<Rightarrow> t)"
  by (simp add: ForRecipient_def factory_Done [OF assms] deref_new layers_chain unwrap_chain)

theorem chain_nesting_order_witness:
  "deref [base_client] (Client_http billing_client) = Some base_client
   \<and> (\<exists>ret new rt. ForRecipient registry_Register billing_client ''billing'' [base_client] = Done ret
           \<and> deref (ret_heap ret) (ret_client ret) = Some new
           \<and> Transport new = Some rt
           \<and> layers rt =
               [InFlight_layer, Counter_layer, Trace_layer, RequestSize_layer,
                ResponseContentLength_layer, Duration_layer]
           \<and> unwrap 6 rt = DefaultTransport)"
  using chain_nesting_order [OF base_deref, of registry_Register "''billing''"] base_deref
  by (simp add: base_transport)

text \<open>
  Claim C7: \<open>ForRecipient\<close> returns a newly allocated client with the redirect policy,
  cookie jar and timeout of the base client, and with the chain as its transport, built
  around the base client's transport or, when that is nil, around the default transport.
  The new client is at another address than the base client, and every client that was
  in the heap, the base client among them, is left as it was.
\<close>
theorem client_fields_preserved:
  assumes "deref heap (Client_http c) = Some base"
  shows "\<exists>ret new. ForRecipient Register c recipient heap = Done ret
           \<and> deref (ret_heap ret) (ret_client ret) = Some new
           \<and> CheckRedirect new = CheckRedirect base
           \<and> Jar new = Jar base
           \<and> Timeout new = Timeout base
           \<and> Transport new = Some (decorator_chain
                 (case Transport base of None \<Rightarrow> DefaultTransport | Some t \<Rightarrow> t))
           \<and> ret_client ret \<noteq> Client_http c
           \<and> deref (ret_heap ret) (Client_http c) = Some base
           \<and> take (length heap) (ret_heap ret) = heap"
  by (simp add: ForRecipient_def factory_Done [OF assms] deref_new deref_old [OF assms]
      deref_fresh [OF assms])

theorem client_fields_preserved_witness:
  "deref [base_client] (Client_http billing_client) = Some base_client
   \<and> (\<exists>ret new. ForRecipient registry_Register billing_client ''billing'' [base_client] = Done ret
           \<and> deref (ret_heap ret) (ret_client ret) = Some new
           \<and> CheckRedirect new = ''follow''
           \<and> Jar new = ''jar''
           \<and> Timeout new = 30
           \<and> Transport new = Some (decorator_chain DefaultTransport)
           \<and> ret_client ret \<noteq> Some 0
           \<and> deref (ret_heap ret) (Some 0) = Some base_client
           \<and> take 1 (ret_heap ret) = [base_client])"
proof -
  have f: "CheckRedirect base_client = ''follow''" "Jar base_client = ''jar''"
    "Timeout base_client = 30" "Client_http billing_client = Some 0"
    "length [base_client] = 1"
    by (simp_all add: base_client_def billing_client_def)
  from client_fields_preserved [OF base_deref, of registry_Register "''billing''"] base_deref
  show ?thesis
    by (simp only: f base_transport option.case)
qed

lemma chain_result_nil:
  assumes "fst (RoundTrip dt transport (r\<lparr>Context := Some trace\<rparr>) w) = Done (None, None)"
  shows "fst (RoundTrip dt (decorator_chain transport) r w) = Panic"
proof -
  let ?r = "r\<lparr>Context := Some trace\<rparr>" and ?w = "gauge_add 1 w"
  have "fst (RoundTrip dt transport ?r ?w) = Done (None, None)"
    using assms RoundTrip_result_world [of dt transport ?r ?w w] by simp
  then obtain w1 where "RoundTrip dt transport ?r ?w = (Done (None, None), w1)"
    by (cases "RoundTrip dt transport ?r ?w") simp
  then show ?thesis
    by (simp add: decorator_chain_def Let_def)
qed

lemma chain_error_from_transport:
  assumes "fst (RoundTrip dt (decorator_chain transport) r w) = Done (resp, Some e)"
  shows "fst (RoundTrip dt transport (r\<lparr>Context := Some trace\<rparr>) w) = Done (resp, Some e)"
proof (cases "fst (RoundTrip dt transport (r\<lparr>Context := Some trace\<rparr>) w) = Done (None, None)")
  case True
  from chain_result_nil [OF True] assms show ?thesis by simp
next
  case False
  from chain_result [OF False] assms show ?thesis by simp
qed

lemma instruments_identities:
  "map identity (instruments (new_outgoingInstrumentation ns cl)) =
     [(ns, subsystemHTTPOutgoing, ''request_duration_histogram_seconds'', cl),
      (ns, subsystemHTTPOutgoing, ''requests_total'', cl),
      (ns, subsystemHTTPOutgoing, ''dns_duration_histogram_seconds'', cl),
      (ns, subsystemHTTPOutgoing, ''tls_duration_histogram_seconds'', cl),
      (ns, subsystemHTTPOutgoing, ''in_flight_requests'', cl),
      (ns, subsystemHTTPOutgoing, ''request_size_histogram_bytes'', cl),
      (ns, subsystemHTTPOutgoing, ''response_content_length_histogram'', cl)]"
  by (simp add: instruments_def new_outgoingInstrumentation_def identity_def Let_def
      Opts.truncate_def)

lemma register_fresh: "fst (registry_Register (new_outgoingInstrumentation ns cl) []) = None"
  by (simp add: registry_Register_def Let_def instruments_identities)

lemma register_twice:
  "fst (registry_Register (new_outgoingInstrumentation ns cl)
         (snd (registry_Register (new_outgoingInstrumentation ns cl) [])))
     = Some (Error ''duplicate metrics collector registration attempted'')"
  by (simp add: registry_Register_def Let_def instruments_identities)

lemma ForRecipient_Done:
  assumes "ForRecipient Register c recipient heap = Done ret"
  shows "ret_err ret = fst (Register
           (new_outgoingInstrumentation (Client_Namespace c) [(''recipient'', recipient)])
           (Registerer c))"
proof (cases "deref heap (Client_http c)")
  case None
  with assms show ?thesis
    by (simp add: ForRecipient_def instrumentClientWithConstLabels_def)
next
  case (Some base)
  from assms
  have "instrumentClientWithConstLabels Register (Client_Namespace c) (Client_http c)
          (Registerer c) [(''recipient'', recipient)] heap = Done ret"
    by (simp only: ForRecipient_def)
  then have "ret = \<lparr>ret_client = Some (length heap),
           ret_err = fst (Register (new_outgoingInstrumentation (Client_Namespace c)
                       [(''recipient'', recipient)]) (Registerer c)),
           ret_heap = heap @
             [\<lparr>CheckRedirect = CheckRedirect base, Jar = Jar base, Timeout = Timeout base,
               Transport = Some (decorator_chain
                 (case Transport base of None \<Rightarrow> DefaultTransport | Some t \<Rightarrow> t))\<rparr>],
           ret_reg = snd (Register (new_outgoingInstrumentation (Client_Namespace c)
                       [(''recipient'', recipient)]) (Registerer c)),
           ret_i = new_outgoingInstrumentation (Client_Namespace c) [(''recipient'', recipient)]\<rparr>"
    by (simp only: factory_Done [OF Some] exec.inject)
  then show ?thesis by simp
qed

text \<open>
  Claim C8, as the specification states it, fails: a failed registration is not the only
  way in which \<open>ForRecipient\<close> fails, and the layers do add a failure to the request
  path. On a wrapper whose embedded client is nil, \<open>ForRecipient\<close> panics (line 119)
  and no error is returned; and when the base transport returns a nil response with a nil
  error, the chain panics.
\<close>

theorem other_failures_counterexample:
  "ForRecipient registry_Register nil_client ''billing'' [base_client] = Panic
   \<and> fst (RoundTrip ok_transport (Transport_of nil_transport)
        (get_request\<lparr>Context := Some trace\<rparr>) billing_world) = Done (None, None)
   \<and> fst (RoundTrip ok_transport (decorator_chain (Transport_of nil_transport))
        get_request billing_world) = Panic"
proof -
  have "ForRecipient registry_Register nil_client ''billing'' [base_client] = Panic"
    by (simp add: ForRecipient_def instrumentClientWithConstLabels_def deref_def nil_client_def)
  with nil_result [of ok_transport "get_request\<lparr>Context := Some trace\<rparr>" billing_world]
    chain_result_nil [OF nil_result, of ok_transport get_request billing_world]
  show ?thesis by blast
qed

text \<open>
  Claim C8, amended: whenever \<open>ForRecipient\<close> returns, the error it returns is the one
  that \<open>Register\<close> returned for the metric set: it is non-nil if and only if the
  registration failed. The layers never make an error of their own: an error that the
  chain returns is the error its base transport returned, and the chain leaves the
  outcome of every transport call unchanged that does not return a nil response together
  with a nil error.
\<close>

theorem error_only_from_registration:
  "(\<forall>ret. ForRecipient Register c recipient heap = Done ret \<longrightarrow>
       ret_err ret = fst (Register
          (new_outgoingInstrumentation (Client_Namespace c) [(''recipient'', recipient)])
          (Registerer c))
       \<and> (ret_err ret \<noteq> None) = (fst (Register
          (new_outgoingInstrumentation (Client_Namespace c) [(''recipient'', recipient)])
          (Registerer c)) \<noteq> None))
   \<and> (\<forall>resp e. fst (RoundTrip dt (decorator_chain transport) r w) = Done (resp, Some e) \<longrightarrow>
        fst (RoundTrip dt transport (r\<lparr>Context := Some trace\<rparr>) w) = Done (resp, Some e))
   \<and> (fst (RoundTrip dt transport (r\<lparr>Context := Some trace\<rparr>) w) \<noteq> Done (None, None) \<longrightarrow>
        fst (RoundTrip dt (decorator_chain transport) r w)
          = fst (RoundTrip dt transport (r\<lparr>Context := Some trace\<rparr>) w))"
proof (intro conjI allI impI)
  fix ret
  assume d: "ForRecipient Register c recipient heap = Done ret"
  show e: "ret_err ret = fst (Register
          (new_outgoingInstrumentation (Client_Namespace c) [(''recipient'', recipient)])
          (Registerer c))"
    by (rule ForRecipient_Done [OF d])
  show "(ret_err ret \<noteq> None) = (fst (Register
          (new_outgoingInstrumentation (Client_Namespace c) [(''recipient'', recipient)])
          (Registerer c)) \<noteq> None)"
    by (simp only: e)
next
  fix resp e
  assume "fst (RoundTrip dt (decorator_chain transport) r w) = Done (resp, Some e)"
  then show "fst (RoundTrip dt transport (r\<lparr>Context := Some trace\<rparr>) w) = Done (resp, Some e)"
    by (rule chain_error_from_transport)
next
  assume "fst (RoundTrip dt transport (r\<lparr>Context := Some trace\<rparr>) w) \<noteq> Done (None, None)"
  then show "fst (RoundTrip dt (decorator_chain transport) r w)
          = fst (RoundTrip dt transport (r\<lparr>Context := Some trace\<rparr>) w)"
    by (rule chain_result)
qed

theorem error_only_from_registration_witness:
  "(\<exists>ret. ForRecipient registry_Register billing_client ''billing'' [base_client] = Done ret
          \<and> ret_err ret = None)
   \<and> (\<exists>ret. ForRecipient registry_Register billing_client_again ''billing'' [base_client] = Done ret
          \<and> ret_err ret = Some (Error ''duplicate metrics collector registration attempted''))"
proof -
  have n: "Client_Namespace billing_client = ''app''" "Registerer billing_client = []"
    "Client_Namespace billing_client_again = ''app''"
    "Registerer billing_client_again
       = snd (registry_Register (new_outgoingInstrumentation ''app'' [(''recipient'', ''billing'')]) [])"
    by (simp_all add: billing_client_def billing_client_again_def billing_metrics_def)
  let ?a = "ForRecipient registry_Register billing_client ''billing'' [base_client]"
  let ?b = "ForRecipient registry_Register billing_client_again ''billing'' [base_client]"
  obtain ra where a: "?a = Done ra"
    by (simp add: ForRecipient_def factory_Done [OF base_deref])
  obtain rb where b: "?b = Done rb"
    by (simp add: ForRecipient_def factory_Done [OF base_deref_again])
  from error_only_from_registration
         [of registry_Register billing_client "''billing''" "[base_client]", THEN conjunct1] a
  have "ret_err ra = fst (registry_Register
          (new_outgoingInstrumentation (Client_Namespace billing_client)
             [(''recipient'', ''billing'')]) (Registerer billing_client))"
    by blast
  then have ea: "ret_err ra = None"
    by (simp only: n register_fresh)
  from error_only_from_registration
         [of registry_Register billing_client_again "''billing''" "[base_client]", THEN conjunct1] b
  have "ret_err rb = fst (registry_Register
          (new_outgoingInstrumentation (Client_Namespace billing_client_again)
             [(''recipient'', ''billing'')]) (Registerer billing_client_again))"
    by blast
  then have eb: "ret_err rb = Some (Error ''duplicate metrics collector registration attempted'')"
    by (simp only: n register_twice)
  from a b ea eb show ?thesis by blast
qed

text \<open>
  Claim C10: when the registration fails, \<open>ForRecipient\<close> returns the error together
  with a non-nil client, built as in every other case: the fields of the base client and
  the chain as transport.
\<close>
theorem client_returned_with_error:
  assumes "deref heap (Client_http c) = Some base"
    and "fst (Register
           (new_outgoingInstrumentation (Client_Namespace c) [(''recipient'', recipient)])
           (Registerer c)) = Some e"
  shows "\<exists>ret new. ForRecipient Register c recipient heap = Done ret
           \<and> ret_err ret = Some e
           \<and> ret_client ret \<noteq> None
           \<and> deref (ret_heap ret) (ret_client ret) = Some new
           \<and> CheckRedirect new = CheckRedirect base
           \<and> Jar new = Jar base
           \<and> Timeout new = Timeout base
           \<and> Transport new = Some (decorator_chain
                 (case Transport base of None \<Rightarrow> DefaultTransport | Some t \<Rightarrow> t))"
  by (simp add: ForRecipient_def factory_Done [OF assms(1)] assms(2) deref_new)

theorem client_returned_with_error_witness:
  "deref [base_client] (Client_http billing_client_again) = Some base_client
   \<and> fst (registry_Register
           (new_outgoingInstrumentation (Client_Namespace billing_client_again)
              [(''recipient'', ''billing'')])
           (Registerer billing_client_again))
       = Some (Error ''duplicate metrics collector registration attempted'')
   \<and> (\<exists>ret new. ForRecipient registry_Register billing_client_again ''billing'' [base_client] = Done ret
          \<and> ret_err ret = Some (Error ''duplicate metrics collector registration attempted'')
          \<and> ret_client ret = Some 1
          \<and> deref (ret_heap ret) (ret_client ret) = Some new
          \<and> Transport new = Some (decorator_chain DefaultTransport))"
proof -
  have h: "fst (registry_Register
           (new_outgoingInstrumentation (Client_Namespace billing_client_again)
              [(''recipient'', ''billing'')])
           (Registerer billing_client_again))
       = Some (Error ''duplicate metrics collector registration attempted'')"
    by (simp add: billing_client_def billing_client_again_def billing_metrics_def register_twice)
  have c: "\<And>ret. ForRecipient registry_Register billing_client_again ''billing'' [base_client] = Done ret
            \<Longrightarrow> ret_client ret = Some 1"
    by (auto simp: ForRecipient_def factory_Done [OF base_deref_again])
  from client_returned_with_error
         [where Register = registry_Register and c = billing_client_again
            and recipient = "''billing''" and heap = "[base_client]", OF base_deref_again h]
    c base_deref_again h
  show ?thesis
    by (simp only: base_transport option.case) blast
qed

section \<open>The metric set\<close>

text \<open>
  Claim C9, as the specification states it, fails on the count: the struct of lines
  195 to 203 has seven instruments, five of them histograms.
\<close>
theorem metric_set_not_six_counterexample:
  "length (instruments billing_metrics) \<noteq> 6
   \<and> length (filter is_histogram (instruments billing_metrics)) \<noteq> 4"
  by (simp add: instruments_def)

text \<open>
  Claim C9, amended: the metric set is a bundle of exactly seven instruments, one
  counter, five histograms and one gauge; those that \<open>instrumentClientWithConstLabels\<close>
  builds all carry the given namespace, the subsystem tag and the given constant labels;
  \<open>Describe\<close> and \<open>Collect\<close> each delegate to every instrument, in one and the same
  order.
\<close>
theorem metric_set_seven_instruments:
  "length (instruments i) = 7
   \<and> length (filter is_counter (instruments i)) = 1
   \<and> length (filter is_histogram (instruments i)) = 5
   \<and> length (filter is_gauge (instruments i)) = 1
   \<and> map (\<lambda>k. (Namespace (Collector_opts k), Subsystem (Collector_opts k),
                 ConstLabels (Collector_opts k)))
        (instruments (new_outgoingInstrumentation namespace constLabels))
       = replicate 7 (namespace, subsystemHTTPOutgoing, constLabels)
   \<and> Describe i = concat (map Collector_Describe (instruments i))
   \<and> Collect i = concat (map Collector_Collect (instruments i))"
  by (simp add: instruments_def new_outgoingInstrumentation_def Describe_def Collect_def
      Opts.truncate_def eval_nat_numeral)

end
